theory Spec2Isabelle
  imports Complex_Main "HOL-Library.Char_ord"
begin

section \<open>Data model (game\_state.py)\<close>

text \<open>
  The enumerations of \<^verbatim>\<open>game_state.py\<close>. Three Python enums have a member \<^verbatim>\<open>NONE\<close> and
  two have a member \<^verbatim>\<open>GOLD\<close>; the constructors carry the enum's name as a prefix there.
\<close>

datatype suit = HEARTS | DIAMONDS | CLUBS | SPADES

datatype enhancement =
  EnhNONE | BONUS | MULT | WILD | GLASS | STEEL | STONE | EnhGOLD | LUCKY

datatype edition = EdNONE | FOIL | HOLOGRAPHIC | POLYCHROME | NEGATIVE

datatype seal = SealNONE | SealGOLD | RED | BLUE | PURPLE

datatype hand_type =
  HIGH_CARD | PAIR | TWO_PAIR | THREE_OF_A_KIND | STRAIGHT | FLUSH | FULL_HOUSE
  | FOUR_OF_A_KIND | STRAIGHT_FLUSH | ROYAL_FLUSH | FIVE_OF_A_KIND | FLUSH_HOUSE | FLUSH_FIVE

text \<open>\<^verbatim>\<open>HandType.base_chips\<close> and \<^verbatim>\<open>HandType.base_mult\<close>: the enum's value tuple.\<close>

fun base_chips :: "hand_type \<Rightarrow> int" where
  "base_chips HIGH_CARD = 5"
| "base_chips PAIR = 10"
| "base_chips TWO_PAIR = 20"
| "base_chips THREE_OF_A_KIND = 30"
| "base_chips STRAIGHT = 30"
| "base_chips FLUSH = 35"
| "base_chips FULL_HOUSE = 40"
| "base_chips FOUR_OF_A_KIND = 60"
| "base_chips STRAIGHT_FLUSH = 100"
| "base_chips ROYAL_FLUSH = 100"
| "base_chips FIVE_OF_A_KIND = 120"
| "base_chips FLUSH_HOUSE = 140"
| "base_chips FLUSH_FIVE = 160"

fun base_mult :: "hand_type \<Rightarrow> int" where
  "base_mult HIGH_CARD = 1"
| "base_mult PAIR = 2"
| "base_mult TWO_PAIR = 2"
| "base_mult THREE_OF_A_KIND = 3"
| "base_mult STRAIGHT = 4"
| "base_mult FLUSH = 4"
| "base_mult FULL_HOUSE = 4"
| "base_mult FOUR_OF_A_KIND = 7"
| "base_mult STRAIGHT_FLUSH = 8"
| "base_mult ROYAL_FLUSH = 8"
| "base_mult FIVE_OF_A_KIND = 12"
| "base_mult FLUSH_HOUSE = 14"
| "base_mult FLUSH_FIVE = 16"

record card =
  rank :: int
  suit :: suit
  enhancement :: enhancement
  edition :: edition
  seal :: seal

text \<open>\<^verbatim>\<open>Card(rank=r, suit=s)\<close> with the dataclass defaults for the other fields.\<close>

definition Card :: "int \<Rightarrow> suit \<Rightarrow> card" where
  "Card r s = \<lparr>rank = r, suit = s, enhancement = EnhNONE, edition = EdNONE, seal = SealNONE\<rparr>"

text \<open>\<^verbatim>\<open>Card.chip_value\<close>, branch by branch.\<close>

definition chip_value :: "card \<Rightarrow> int" where
  "chip_value c =
     (if enhancement c = STONE then 50
      else
        let base = (if 2 \<le> rank c \<and> rank c \<le> 10 then rank c
                    else if rank c = 11 \<or> rank c = 12 \<or> rank c = 13 then 10
                    else 11);
            base = (if enhancement c = BONUS then base + 30 else base);
            base = (if edition c = FOIL then base + 50 else base)
        in base)"

text \<open>
  \<^verbatim>\<open>Card.__eq__\<close> compares rank, suit and enhancement. \<^verbatim>\<open>Card.__hash__\<close> is Python's built-in
  \<^verbatim>\<open>hash\<close> of the five-field tuple; the built-in is not part of the repository and is a
  parameter \<open>h\<close> of the model.
\<close>

definition card_eq :: "card \<Rightarrow> card \<Rightarrow> bool" where
  "card_eq a b \<longleftrightarrow> rank a = rank b \<and> suit a = suit b \<and> enhancement a = enhancement b"

definition card_hash ::
  "(int \<times> suit \<times> enhancement \<times> edition \<times> seal \<Rightarrow> 'h) \<Rightarrow> card \<Rightarrow> 'h" where
  "card_hash h c = h (rank c, suit c, enhancement c, edition c, seal c)"

subsection \<open>Rendering and parsing card tokens\<close>

text \<open>Python's \<^verbatim>\<open>str(n)\<close> for an integer: decimal digits, with a minus sign when negative.\<close>

definition digit_char :: "nat \<Rightarrow> char" where
  "digit_char d = char_of (48 + d)"

fun str_nat :: "nat \<Rightarrow> string" where
  "str_nat n = (if n < 10 then [digit_char n] else str_nat (n div 10) @ [digit_char (n mod 10)])"

declare str_nat.simps [simp del]

definition str_int :: "int \<Rightarrow> string" where
  "str_int i = (if i < 0 then CHR ''-'' # str_nat (nat (- i)) else str_nat (nat i))"

text \<open>\<^verbatim>\<open>Card.rank_name\<close>: \<^verbatim>\<open>names.get(self.rank, str(self.rank))\<close>.\<close>

definition rank_name :: "card \<Rightarrow> string" where
  "rank_name c =
     (if rank c = 11 then ''J'' else if rank c = 12 then ''Q''
      else if rank c = 13 then ''K'' else if rank c = 14 then ''A''
      else str_int (rank c))"

text \<open>\<^verbatim>\<open>Suit.value\<close>: the one-letter short name of a suit, the inverse of \<^verbatim>\<open>suit_map\<close>.\<close>

fun suit_value :: "suit \<Rightarrow> char" where
  "suit_value HEARTS = CHR ''H''"
| "suit_value DIAMONDS = CHR ''D''"
| "suit_value CLUBS = CHR ''C''"
| "suit_value SPADES = CHR ''S''"

text \<open>
  The short name of a card: \<^verbatim>\<open>rank_name\<close> followed by the suit's letter. (\<^verbatim>\<open>Card.__str__\<close>
  prints the suit's symbol in place of its letter.)
\<close>

definition short_name :: "card \<Rightarrow> string" where
  "short_name c = rank_name c @ [suit_value (suit c)]"

datatype error = ValueError | IndexError | AttributeError | ZeroDivisionError

text \<open>
  \<^verbatim>\<open>str.upper\<close> and \<^verbatim>\<open>str.strip\<close> on strings of 8-bit characters. \<^verbatim>\<open>strip\<close> removes the
  white space of Python: the codes 9 to 13, 28 to 32, 133 and 160.
\<close>

definition upper_char :: "char \<Rightarrow> char" where
  "upper_char c =
     (if CHR ''a'' \<le> c \<and> c \<le> CHR ''z'' then char_of (of_char c - (32::nat)) else c)"

definition upper :: "string \<Rightarrow> string" where
  "upper s = map upper_char s"

definition is_space :: "char \<Rightarrow> bool" where
  "is_space c \<longleftrightarrow> (of_char c :: nat) \<in> {9, 10, 11, 12, 13, 28, 29, 30, 31, 32, 133, 160}"

definition strip :: "string \<Rightarrow> string" where
  "strip s = rev (dropWhile is_space (rev (dropWhile is_space s)))"

definition is_digit_char :: "char \<Rightarrow> bool" where
  "is_digit_char c \<longleftrightarrow> CHR ''0'' \<le> c \<and> c \<le> CHR ''9''"

definition isdigit :: "string \<Rightarrow> bool" where
  "isdigit s \<longleftrightarrow> s \<noteq> [] \<and> list_all is_digit_char s"

text \<open>\<^verbatim>\<open>int(s)\<close> on a string of decimal digits.\<close>

definition int_of_digits :: "string \<Rightarrow> int" where
  "int_of_digits s = foldl (\<lambda>acc c. 10 * acc + (int (of_char c) - 48)) 0 s"

definition suit_map :: "char \<Rightarrow> suit option" where
  "suit_map ch =
     (if ch = CHR ''H'' then Some HEARTS else if ch = CHR ''D'' then Some DIAMONDS
      else if ch = CHR ''C'' then Some CLUBS else if ch = CHR ''S'' then Some SPADES
      else None)"

definition rank_map :: "string \<Rightarrow> int option" where
  "rank_map s =
     (if s = ''A'' then Some 14 else if s = ''K'' then Some 13
      else if s = ''Q'' then Some 12 else if s = ''J'' then Some 11
      else if s = ''T'' then Some 10 else if s = ''10'' then Some 10
      else None)"

text \<open>
  \<^verbatim>\<open>parse_card\<close>. \<^verbatim>\<open>card_str[-1]\<close> raises IndexError on the empty string; an unknown suit
  letter and an unknown rank raise ValueError.
\<close>

definition parse_card :: "string \<Rightarrow> error + card" where
  "parse_card card_str =
     (let s = strip (upper card_str) in
      if s = [] then Inl IndexError
      else
        let suit_char = last s; rank_str = butlast s in
        case suit_map suit_char of
          None \<Rightarrow> Inl ValueError
        | Some su \<Rightarrow>
            (case rank_map rank_str of
               Some r \<Rightarrow> Inr (Card r su)
             | None \<Rightarrow>
                 if isdigit rank_str \<and> 2 \<le> int_of_digits rank_str \<and> int_of_digits rank_str \<le> 10
                 then Inr (Card (int_of_digits rank_str) su)
                 else Inl ValueError))"


subsection \<open>Bonus entities, hand levels and the game state\<close>

record joker_effect =
  flat_chips :: int
  flat_mult :: int
  x_mult :: rat
  chip_mult :: rat
  conditional :: "string option"
  trigger :: "string option"

text \<open>
  Python floats are modelled by the rational numbers they are meant to hold, and float
  arithmetic by exact rational arithmetic. For the multipliers of the catalogue (1, 2, 3, 4
  and the card factors 2 and 1.5) the float results are exact as long as they stay below
  \<open>2^53\<close>; overflow to infinity is not modelled.
\<close>

definition JokerEffect :: joker_effect where
  "JokerEffect = \<lparr>flat_chips = 0, flat_mult = 0, x_mult = 1, chip_mult = 1,
                   conditional = None, trigger = None\<rparr>"

record joker =
  name :: string
  rarity :: string
  joker_edition :: edition
  effect :: joker_effect

text \<open>\<^verbatim>\<open>HandLevel.chips\<close> and \<^verbatim>\<open>HandLevel.mult\<close> for a hand type at a level.\<close>

fun level_bonus :: "hand_type \<Rightarrow> int" where
  "level_bonus HIGH_CARD = 10"
| "level_bonus PAIR = 15"
| "level_bonus TWO_PAIR = 20"
| "level_bonus THREE_OF_A_KIND = 20"
| "level_bonus STRAIGHT = 30"
| "level_bonus FLUSH = 15"
| "level_bonus FULL_HOUSE = 25"
| "level_bonus FOUR_OF_A_KIND = 30"
| "level_bonus STRAIGHT_FLUSH = 40"
| "level_bonus ROYAL_FLUSH = 40"
| "level_bonus FIVE_OF_A_KIND = 35"
| "level_bonus FLUSH_HOUSE = 40"
| "level_bonus FLUSH_FIVE = 50"

definition level_chips :: "hand_type \<Rightarrow> int \<Rightarrow> int" where
  "level_chips ht level = base_chips ht + (level - 1) * level_bonus ht"

definition level_mult :: "hand_type \<Rightarrow> int \<Rightarrow> int" where
  "level_mult ht level = base_mult ht + (level - 1)"

record blind_info =
  blind_name :: string
  target_score :: int
  reward :: int
  is_boss :: bool
  special_effect :: "string option"

record game_state =
  hand :: "card list"
  deck :: "card list"
  jokers :: "joker list"
  hand_levels :: "hand_type \<Rightarrow> int option"
  hands_remaining :: int
  discards_remaining :: int
  money :: int
  blind :: blind_info
  current_score :: int
  ante :: int
  round_in_ante :: int
  cards_played_this_round :: "card list"

text \<open>\<^verbatim>\<open>GameState.get_hand_level\<close>: \<^verbatim>\<open>self.hand_levels.get(hand_type, 1)\<close>.\<close>

definition get_hand_level :: "game_state \<Rightarrow> hand_type \<Rightarrow> int" where
  "get_hand_level gs ht = (case hand_levels gs ht of Some l \<Rightarrow> l | None \<Rightarrow> 1)"

definition can_discard :: "game_state \<Rightarrow> bool" where
  "can_discard gs \<longleftrightarrow> discards_remaining gs > 0 \<and> length (hand gs) > 0"

section \<open>Hand classifier (HandEvaluator.get\_hand\_type)\<close>

text \<open>
  \<^verbatim>\<open>collections.Counter\<close> and the hand-written \<^verbatim>\<open>d[k] = d.get(k, 0) + 1\<close> loops: a dictionary
  from keys to counts that iterates in the order of first insertion, as an association list.
\<close>

fun counter_incr :: "'a \<Rightarrow> ('a \<times> nat) list \<Rightarrow> ('a \<times> nat) list" where
  "counter_incr k [] = [(k, 1)]"
| "counter_incr k ((k', n) # kvs) =
     (if k = k' then (k', Suc n) # kvs else (k', n) # counter_incr k kvs)"

definition Counter :: "'a list \<Rightarrow> ('a \<times> nat) list" where
  "Counter xs = foldl (\<lambda>d k. counter_incr k d) [] xs"

text \<open>\<^verbatim>\<open>counts[k]\<close> on a Counter: 0 for a missing key.\<close>

definition count_of :: "('a \<times> nat) list \<Rightarrow> 'a \<Rightarrow> nat" where
  "count_of kvs k = (case map_of kvs k of Some n \<Rightarrow> n | None \<Rightarrow> 0)"

text \<open>\<^verbatim>\<open>[r for r, c in rank_counts.items() if c >= k]\<close>.\<close>

definition ranks_with :: "nat \<Rightarrow> (int \<times> nat) list \<Rightarrow> int list" where
  "ranks_with k rank_counts = map fst (filter (\<lambda>rc. snd rc \<ge> k) rank_counts)"

text \<open>
  The list \<^verbatim>\<open>suits\<close> of the classifier: \<open>None\<close> stands for the string \<^verbatim>\<open>"WILD"\<close>; a Stone
  card adds nothing.
\<close>

definition suits_of :: "card list \<Rightarrow> suit option list" where
  "suits_of cards =
     concat (map (\<lambda>c. if enhancement c = WILD then [None]
                       else if enhancement c \<noteq> STONE then [Some (suit c)]
                       else []) cards)"

text \<open>\<^verbatim>\<open>HandEvaluator._is_straight\<close>; \<^verbatim>\<open>sorted(set(ranks))\<close> is \<open>sort (remdups ranks)\<close>.\<close>

definition is_straight :: "int list \<Rightarrow> bool" where
  "is_straight ranks =
     (let unique = sort (remdups ranks) in
      if length unique < 5 then False
      else if list_ex (\<lambda>i. unique ! (i + 4) - unique ! i = 4) [0 ..< length unique - 4] then True
      else if set [2, 3, 4, 5, 14] \<subseteq> set unique then True
      else False)"

text \<open>\<^verbatim>\<open>max(cards, key=lambda c: c.rank)\<close>: the first card of maximal rank.\<close>

fun max_by_rank :: "card \<Rightarrow> card list \<Rightarrow> card" where
  "max_by_rank best [] = best"
| "max_by_rank best (c # cs) = max_by_rank (if rank c > rank best then c else best) cs"

definition cards_of_rank :: "int \<Rightarrow> card list \<Rightarrow> card list" where
  "cards_of_rank r cards = filter (\<lambda>c. rank c = r) cards"

text \<open>
  \<^verbatim>\<open>HandEvaluator.get_hand_type\<close>, in the source's order of checks. Each \<open>hd\<close> stands for an
  index \<^verbatim>\<open>[0]\<close> that the source takes under a guard which makes the list non-empty.
\<close>

definition get_hand_type :: "card list \<Rightarrow> hand_type \<times> card list" where
  "get_hand_type cards =
     (if length cards = 0 then (HIGH_CARD, [])
      else
        let ranks = map rank cards;
            suits = suits_of cards;
            rank_counts = Counter ranks;
            suit_counts = Counter (filter (\<lambda>s. s \<noteq> None) suits);
            wild_count = count_list suits None;
            sorted_counts = rev (sort (map snd rank_counts));
            is_flush = (length cards \<ge> 5 \<and>
                        (list_ex (\<lambda>sc. snd sc + wild_count \<ge> 5) suit_counts \<or> wild_count \<ge> 5));
            straight = is_straight ranks;
            pairs = ranks_with 2 rank_counts
        in
        if length cards \<ge> 5 \<and> is_flush \<and> hd sorted_counts \<ge> 5 then
          (FLUSH_FIVE, take 5 (filter (\<lambda>c. count_of rank_counts (rank c) \<ge> 5) cards))
        else if length cards \<ge> 5 \<and> is_flush \<and> take 2 sorted_counts = [3, 2] then
          (FLUSH_HOUSE, take 5 cards)
        else if length cards \<ge> 5 \<and> hd sorted_counts \<ge> 5 then
          (FIVE_OF_A_KIND, take 5 (cards_of_rank (hd (ranks_with 5 rank_counts)) cards))
        else if length cards \<ge> 5 \<and> is_flush \<and> straight then
          (let sorted_ranks = sort (remdups ranks) in
           if drop (length sorted_ranks - 5) sorted_ranks = [10, 11, 12, 13, 14]
           then (ROYAL_FLUSH, take 5 cards)
           else (STRAIGHT_FLUSH, take 5 cards))
        else if sorted_counts \<noteq> [] \<and> hd sorted_counts \<ge> 4 then
          (FOUR_OF_A_KIND, take 4 (cards_of_rank (hd (ranks_with 4 rank_counts)) cards))
        else if length sorted_counts \<ge> 2 \<and> sorted_counts ! 0 \<ge> 3 \<and> sorted_counts ! 1 \<ge> 2 then
          (let three_rank = hd (ranks_with 3 rank_counts);
               pair_rank = hd (filter (\<lambda>r. r \<noteq> three_rank) (ranks_with 2 rank_counts))
           in (FULL_HOUSE, take 3 (cards_of_rank three_rank cards)
                           @ take 2 (cards_of_rank pair_rank cards)))
        else if is_flush then (FLUSH, take 5 cards)
        else if straight then (STRAIGHT, take 5 cards)
        else if sorted_counts \<noteq> [] \<and> hd sorted_counts \<ge> 3 then
          (THREE_OF_A_KIND, take 3 (cards_of_rank (hd (ranks_with 3 rank_counts)) cards))
        else if length pairs \<ge> 2 then
          (TWO_PAIR, concat (map (\<lambda>r. take 2 (cards_of_rank r cards))
                                 (take 2 (rev (sort pairs)))))
        else if pairs \<noteq> [] then
          (PAIR, take 2 (cards_of_rank (hd pairs) cards))
        else (HIGH_CARD, [max_by_rank (hd cards) (tl cards)]))"

section \<open>Score calculator (HandEvaluator.calculate\_score)\<close>

text \<open>\<^verbatim>\<open>int(x)\<close> on a float: truncation toward zero.\<close>

definition py_int :: "rat \<Rightarrow> int" where
  "py_int q = (if q \<ge> 0 then \<lfloor>q\<rfloor> else \<lceil>q\<rceil>)"

text \<open>
  \<^verbatim>\<open>HandEvaluator._check_condition\<close>: the dictionary of the ten known conditions, looked up
  with default \<^verbatim>\<open>False\<close>.
\<close>

definition check_condition ::
  "string \<Rightarrow> card list \<Rightarrow> hand_type \<Rightarrow> card list \<Rightarrow> game_state \<Rightarrow> bool" where
  "check_condition condition cards ht scoring_cards gs =
     (if condition = ''pair'' then ht = PAIR
      else if condition = ''two_pair'' then ht = TWO_PAIR
      else if condition = ''three_of_a_kind'' then ht = THREE_OF_A_KIND
      else if condition = ''straight'' then ht = STRAIGHT \<or> ht = STRAIGHT_FLUSH
      else if condition = ''flush'' then
        ht = FLUSH \<or> ht = STRAIGHT_FLUSH \<or> ht = FLUSH_HOUSE \<or> ht = FLUSH_FIVE
      else if condition = ''full_house'' then ht = FULL_HOUSE \<or> ht = FLUSH_HOUSE
      else if condition = ''four_of_a_kind'' then ht = FOUR_OF_A_KIND
      else if condition = ''hand_size_lte_3'' then length cards \<le> 3
      else if condition = ''discards_0'' then discards_remaining gs = 0
      else if condition = ''all_spades_clubs'' then
        list_all (\<lambda>c. suit c = SPADES \<or> suit c = CLUBS) cards
      else False)"

text \<open>
  \<^verbatim>\<open>HandEvaluator._apply_joker\<close>. \<^verbatim>\<open>if effect.conditional:\<close> is false for \<^verbatim>\<open>None\<close> and for the
  empty string.
\<close>

definition apply_joker ::
  "joker \<Rightarrow> card list \<Rightarrow> hand_type \<Rightarrow> card list \<Rightarrow> game_state \<Rightarrow> int \<times> int \<times> rat" where
  "apply_joker j cards ht scoring_cards gs =
     (let eff = effect j;
          condition_met =
            (case conditional eff of
               None \<Rightarrow> True
             | Some cond \<Rightarrow> if cond = [] then True
                            else check_condition cond cards ht scoring_cards gs)
      in if condition_met
         then (flat_chips eff, flat_mult eff, if x_mult eff \<noteq> 1 then 1 * x_mult eff else 1)
         else (0, 0, 1))"

text \<open>The body of the loop over the scoring cards, on the accumulators (chips, mult, x\_mult).\<close>

definition card_step :: "int \<times> int \<times> rat \<Rightarrow> card \<Rightarrow> int \<times> int \<times> rat" where
  "card_step acc c =
     (case acc of (chips, mult, xm) \<Rightarrow>
        let chips = chips + chip_value c;
            mult = (if enhancement c = MULT then mult + 4 else mult);
            mult = (if edition c = HOLOGRAPHIC then mult + 10 else mult);
            xm = (if enhancement c = GLASS then xm * 2 else xm);
            xm = (if edition c = POLYCHROME then xm * (3 / 2) else xm)
        in (chips, mult, xm))"

text \<open>The body of the loop over the jokers.\<close>

definition joker_step ::
  "card list \<Rightarrow> hand_type \<Rightarrow> card list \<Rightarrow> game_state \<Rightarrow> int \<times> int \<times> rat \<Rightarrow> joker
   \<Rightarrow> int \<times> int \<times> rat" where
  "joker_step cards ht scoring_cards gs acc j =
     (case acc of (chips, mult, xm) \<Rightarrow>
        case apply_joker j cards ht scoring_cards gs of (j_chips, j_mult, j_xmult) \<Rightarrow>
          let chips = chips + j_chips;
              mult = mult + j_mult;
              xm = xm * j_xmult
          in if joker_edition j = FOIL then (chips + 50, mult, xm)
             else if joker_edition j = HOLOGRAPHIC then (chips, mult + 10, xm)
             else if joker_edition j = POLYCHROME then (chips, mult, xm * (3 / 2))
             else (chips, mult, xm))"

text \<open>
  \<^verbatim>\<open>HandEvaluator.calculate_score\<close>: returns (score, hand type, chips, \<^verbatim>\<open>int(final_mult)\<close>).
\<close>

definition calculate_score :: "card list \<Rightarrow> game_state \<Rightarrow> int \<times> hand_type \<times> int \<times> int" where
  "calculate_score cards gs =
     (case get_hand_type cards of (ht, scoring_cards) \<Rightarrow>
        let level = get_hand_level gs ht;
            acc0 = (level_chips ht level, level_mult ht level, 1);
            acc1 = foldl card_step acc0 scoring_cards;
            acc2 = foldl (joker_step cards ht scoring_cards gs) acc1 (jokers gs)
        in case acc2 of (chips, mult, xm) \<Rightarrow>
             let final_mult = of_int mult * xm;
                 score = py_int (of_int chips * final_mult)
             in (score, ht, chips, py_int final_mult))"


section \<open>Play optimizer (optimizer.py)\<close>

datatype action_type = PLAY | DISCARD

text \<open>
  The \<^verbatim>\<open>reasoning\<close> text of an action. The text of a play is built from the chips and the
  reported mult; the wording of the discard explanations is not modelled.
\<close>

datatype reasoning = NoCardsInHand | ChipsTimesMult int int | NoDiscardsLeft | AllCardsUseful
  | DiscardExplanation

text \<open>
  \<^verbatim>\<open>Action\<close>. The fields \<^verbatim>\<open>confidence\<close> (never set) and \<^verbatim>\<open>potential_hands\<close> (a listing for
  display) are left out.
\<close>

record action =
  action_type :: action_type
  cards :: "card list"
  expected_score :: int
  act_hand_type :: "hand_type option"
  reasoning :: reasoning

text \<open>\<^verbatim>\<open>itertools.combinations(xs, k)\<close>: the k-element subsequences in index order.\<close>

fun combinations :: "nat \<Rightarrow> 'a list \<Rightarrow> 'a list list" where
  "combinations 0 xs = [[]]"
| "combinations (Suc k) [] = []"
| "combinations (Suc k) (x # xs) = map ((#) x) (combinations k xs) @ combinations (Suc k) xs"

text \<open>
  The two nested loops shared by \<^verbatim>\<open>find_best_play\<close> and \<^verbatim>\<open>find_all_plays\<close>:
  \<^verbatim>\<open>for num_cards in range(1, min(6, len(hand) + 1))\<close>,
  \<^verbatim>\<open>for combo in itertools.combinations(hand, num_cards)\<close>.
\<close>

definition candidate_combos :: "'a list \<Rightarrow> 'a list list" where
  "candidate_combos hand_cards =
     concat (map (\<lambda>num_cards. combinations num_cards hand_cards)
                 [1 ..< min 6 (length hand_cards + 1)])"

text \<open>The action that both loops build for one combination.\<close>

definition play_action :: "game_state \<Rightarrow> card list \<Rightarrow> action" where
  "play_action gs combo =
     (case calculate_score combo gs of (score, ht, chips, mult) \<Rightarrow>
        \<lparr>action_type = PLAY, cards = combo, expected_score = score,
         act_hand_type = Some ht, reasoning = ChipsTimesMult chips mult\<rparr>)"

text \<open>The update of (\<^verbatim>\<open>best_score\<close>, \<^verbatim>\<open>best_action\<close>) in \<^verbatim>\<open>find_best_play\<close>.\<close>

definition best_step :: "int \<times> action option \<Rightarrow> action \<Rightarrow> int \<times> action option" where
  "best_step best a =
     (if expected_score a > fst best then (expected_score a, Some a) else best)"

text \<open>
  \<^verbatim>\<open>StrategyOptimizer.find_best_play\<close>. The result \<open>None\<close> is Python's \<^verbatim>\<open>None\<close>, returned when
  no combination scores above the initial \<^verbatim>\<open>best_score = -1\<close>.
\<close>

definition find_best_play :: "game_state \<Rightarrow> action option" where
  "find_best_play gs =
     (if length (hand gs) = 0
      then Some \<lparr>action_type = PLAY, cards = [], expected_score = 0,
                 act_hand_type = None, reasoning = NoCardsInHand\<rparr>
      else snd (foldl best_step (- 1, None) (map (play_action gs) (candidate_combos (hand gs)))))"

text \<open>\<^verbatim>\<open>xs[:n]\<close> for an integer \<open>n\<close>: a negative \<open>n\<close> counts from the end.\<close>

definition py_take :: "int \<Rightarrow> 'a list \<Rightarrow> 'a list" where
  "py_take n xs = (if n \<ge> 0 then take (nat n) xs else take (length xs - nat (- n)) xs)"

text \<open>
  \<^verbatim>\<open>StrategyOptimizer.find_all_plays\<close>. \<^verbatim>\<open>list.sort(key=..., reverse=True)\<close> is a stable sort
  in descending key order: \<open>sort_key\<close> on the negated key.
\<close>

definition find_all_plays :: "game_state \<Rightarrow> int \<Rightarrow> action list" where
  "find_all_plays gs top_n =
     py_take top_n (sort_key (\<lambda>a. - expected_score a)
                     (map (play_action gs) (candidate_combos (hand gs))))"

subsection \<open>Discard analysis\<close>

text \<open>\<^verbatim>\<open>PotentialHand\<close>, without its \<^verbatim>\<open>reasoning\<close> text.\<close>

record potential_hand =
  pot_hand_type :: hand_type
  cards_needed :: int
  cards_to_discard :: "card list"
  cards_to_keep :: "card list"
  probability :: rat
  pot_expected_score :: int

text \<open>Sequencing of computations that may raise.\<close>

definition ebind :: "error + 'a \<Rightarrow> ('a \<Rightarrow> error + 'b) \<Rightarrow> error + 'b" where
  "ebind m f = (case m of Inl e \<Rightarrow> Inl e | Inr x \<Rightarrow> f x)"

fun emap :: "('a \<Rightarrow> error + 'b) \<Rightarrow> 'a list \<Rightarrow> error + 'b list" where
  "emap f [] = Inr []"
| "emap f (x # xs) = ebind (f x) (\<lambda>y. ebind (emap f xs) (\<lambda>ys. Inr (y # ys)))"

text \<open>Float division and \<^verbatim>\<open>x ** n\<close> for a float \<open>x\<close> and an integer \<open>n\<close>.\<close>

definition py_div :: "rat \<Rightarrow> rat \<Rightarrow> error + rat" where
  "py_div a b = (if b = 0 then Inl ZeroDivisionError else Inr (a / b))"

definition py_pow :: "rat \<Rightarrow> int \<Rightarrow> error + rat" where
  "py_pow x n =
     (if n \<ge> 0 then Inr (x ^ nat n)
      else if x = 0 then Inl ZeroDivisionError
      else Inr (1 / x ^ nat (- n)))"

text \<open>\<^verbatim>\<open>StrategyOptimizer._calculate_draw_probability\<close>.\<close>

definition calculate_draw_probability :: "int \<Rightarrow> int \<Rightarrow> int \<Rightarrow> error + rat" where
  "calculate_draw_probability needed favorable_cards deck_size =
     (if needed = 0 then Inr 1
      else if needed = 1 then py_div (of_int favorable_cards) (of_int deck_size)
      else if needed = 2 then
        ebind (py_div (of_int (deck_size - favorable_cards)) (of_int deck_size)) (\<lambda>a.
        ebind (py_div (of_int (deck_size - favorable_cards - 1)) (of_int (deck_size - 1))) (\<lambda>b.
        Inr (1 - a * b)))
      else
        ebind (py_div (of_int favorable_cards) (of_int deck_size)) (\<lambda>q.
        ebind (py_pow q needed) (\<lambda>p.
        Inr (max (1 / 100) (p * 10)))))"

text \<open>
  The two tables of \<^verbatim>\<open>_estimate_hand_score\<close>, which list ten hand types; the last equation
  of each function is the default of \<^verbatim>\<open>.get(hand_type, 5)\<close> and \<^verbatim>\<open>.get(hand_type, 1)\<close>.
\<close>

fun estimate_base_chips :: "hand_type \<Rightarrow> int" where
  "estimate_base_chips HIGH_CARD = 5"
| "estimate_base_chips PAIR = 10"
| "estimate_base_chips TWO_PAIR = 20"
| "estimate_base_chips THREE_OF_A_KIND = 30"
| "estimate_base_chips STRAIGHT = 30"
| "estimate_base_chips FLUSH = 35"
| "estimate_base_chips FULL_HOUSE = 40"
| "estimate_base_chips FOUR_OF_A_KIND = 60"
| "estimate_base_chips STRAIGHT_FLUSH = 100"
| "estimate_base_chips ROYAL_FLUSH = 100"
| "estimate_base_chips _ = 5"

fun estimate_base_mult :: "hand_type \<Rightarrow> int" where
  "estimate_base_mult HIGH_CARD = 1"
| "estimate_base_mult PAIR = 2"
| "estimate_base_mult TWO_PAIR = 2"
| "estimate_base_mult THREE_OF_A_KIND = 3"
| "estimate_base_mult STRAIGHT = 4"
| "estimate_base_mult FLUSH = 4"
| "estimate_base_mult FULL_HOUSE = 4"
| "estimate_base_mult FOUR_OF_A_KIND = 7"
| "estimate_base_mult STRAIGHT_FLUSH = 8"
| "estimate_base_mult ROYAL_FLUSH = 8"
| "estimate_base_mult _ = 1"

text \<open>
  The class \<^verbatim>\<open>Joker\<close> declares \<^verbatim>\<open>name\<close>, \<^verbatim>\<open>rarity\<close>, \<^verbatim>\<open>edition\<close> and \<^verbatim>\<open>effect\<close> only: reading
  \<^verbatim>\<open>joker.trigger_type\<close> raises AttributeError.
\<close>

definition trigger_type :: "joker \<Rightarrow> error + string" where
  "trigger_type j = Inl AttributeError"

text \<open>
  The loop \<^verbatim>\<open>for joker in self.state.jokers: if joker.trigger_type == joker.trigger_type:
  mult += 2\<close>.
\<close>

fun estimate_joker_loop :: "int \<Rightarrow> joker list \<Rightarrow> error + int" where
  "estimate_joker_loop mult [] = Inr mult"
| "estimate_joker_loop mult (j # js) =
     ebind (trigger_type j) (\<lambda>t1.
     ebind (trigger_type j) (\<lambda>t2.
     estimate_joker_loop (if t1 = t2 then mult + 2 else mult) js))"

text \<open>The per-card chips of the estimator.\<close>

definition estimate_card_chips :: "card \<Rightarrow> int" where
  "estimate_card_chips c =
     (let card_chips = (if rank c \<le> 10 then rank c else 10)
      in if rank c = 14 then 11 else card_chips)"

text \<open>
  \<^verbatim>\<open>StrategyOptimizer._estimate_hand_score\<close>. The argument \<^verbatim>\<open>scoring_cards\<close> is optional;
  \<^verbatim>\<open>if scoring_cards:\<close> is false for \<^verbatim>\<open>None\<close> and for the empty list.
\<close>

definition estimate_hand_score :: "game_state \<Rightarrow> hand_type \<Rightarrow> card list option \<Rightarrow> error + int" where
  "estimate_hand_score gs ht scoring_cards =
     (let chips = estimate_base_chips ht;
          mult = estimate_base_mult ht;
          chips =
            (case scoring_cards of
               Some (c # cs) \<Rightarrow> foldl (\<lambda>acc x. acc + estimate_card_chips x) chips (c # cs)
             | _ \<Rightarrow>
                 let avg_card_chips = 7;
                     num_cards = (if ht \<in> {STRAIGHT, FLUSH, FULL_HOUSE, STRAIGHT_FLUSH, ROYAL_FLUSH}
                                  then 5 else 2)
                 in chips + avg_card_chips * num_cards);
          level = (case hand_levels gs ht of Some l \<Rightarrow> l | None \<Rightarrow> 1);
          level_bonus_chips = (level - 1) * 10;
          level_bonus_mult = (level - 1) * 1;
          chips = chips + level_bonus_chips;
          mult = mult + level_bonus_mult
      in ebind (estimate_joker_loop mult (jokers gs)) (\<lambda>mult. Inr (chips * mult)))"


text \<open>\<^verbatim>\<open>c in cards\<close> on a list of cards compares with \<^verbatim>\<open>Card.__eq__\<close>.\<close>

definition card_in :: "card \<Rightarrow> card list \<Rightarrow> bool" where
  "card_in c cs = list_ex (\<lambda>x. card_eq x c) cs"

definition cards_by_suit :: "suit \<Rightarrow> card list \<Rightarrow> card list" where
  "cards_by_suit s cs = filter (\<lambda>c. suit c = s) cs"

text \<open>Section 1 of \<^verbatim>\<open>analyze_potential_hands\<close>: the body of the loop over \<^verbatim>\<open>suit_counts\<close>.\<close>

definition flush_potential :: "game_state \<Rightarrow> suit \<times> nat \<Rightarrow> error + potential_hand list" where
  "flush_potential gs sc =
     (case sc of (s, count) \<Rightarrow>
        if count \<ge> 4 then
          let needed = 5 - int count;
              keep = cards_by_suit s (hand gs);
              discard = take 5 (filter (\<lambda>c. suit c \<noteq> s) (hand gs));
              remaining_in_suit = 13 - int count
          in ebind (calculate_draw_probability needed remaining_in_suit (52 - 8)) (\<lambda>prob.
             if needed \<le> 2 then
               ebind (estimate_hand_score gs FLUSH (Some keep)) (\<lambda>est.
               Inr [\<lparr>pot_hand_type = FLUSH, cards_needed = needed,
                     cards_to_discard = py_take (needed + 2) discard, cards_to_keep = keep,
                     probability = prob, pot_expected_score = est\<rparr>])
             else Inr [])
        else Inr [])"

text \<open>
  \<^verbatim>\<open>_find_straight_potential\<close>, first loop (windows of four ranks). \<^verbatim>\<open>if needed_rank:\<close> is
  false for \<^verbatim>\<open>None\<close> and for 0.
\<close>

fun straight4_loop ::
  "game_state \<Rightarrow> card list \<Rightarrow> int list \<Rightarrow> nat list \<Rightarrow> error + potential_hand option" where
  "straight4_loop gs hand_cards sorted_ranks [] = Inr None"
| "straight4_loop gs hand_cards sorted_ranks (i # rest) =
     (let window = take 4 (drop i sorted_ranks) in
      if last window - hd window = 3 then
        let needed_rank =
              (if i > 0 \<and> sorted_ranks ! (i - 1) = hd window - 1 then Some (hd window - 1)
               else if i + 4 < length sorted_ranks \<and> sorted_ranks ! (i + 4) = last window + 1
                 then Some (last window + 1)
               else if hd window > 2 then Some (hd window - 1)
               else if last window < 14 then Some (last window + 1)
               else None)
        in
        if needed_rank \<noteq> None \<and> needed_rank \<noteq> Some 0 then
          let keep = concat (map (\<lambda>r. take 1 (cards_of_rank r hand_cards)) window);
              discard = filter (\<lambda>c. \<not> card_in c keep) hand_cards
          in ebind (calculate_draw_probability 1 4 (52 - 8)) (\<lambda>prob.
             ebind (estimate_hand_score gs STRAIGHT (Some keep)) (\<lambda>est.
             Inr (Some \<lparr>pot_hand_type = STRAIGHT, cards_needed = 1,
                        cards_to_discard = take 4 discard, cards_to_keep = keep,
                        probability = prob, pot_expected_score = est\<rparr>)))
        else straight4_loop gs hand_cards sorted_ranks rest
      else straight4_loop gs hand_cards sorted_ranks rest)"

text \<open>\<^verbatim>\<open>_find_straight_potential\<close>, second loop (windows of three ranks).\<close>

fun straight3_loop ::
  "game_state \<Rightarrow> card list \<Rightarrow> int list \<Rightarrow> nat list \<Rightarrow> error + potential_hand option" where
  "straight3_loop gs hand_cards sorted_ranks [] = Inr None"
| "straight3_loop gs hand_cards sorted_ranks (i # rest) =
     (let window = take 3 (drop i sorted_ranks) in
      if last window - hd window = 2 then
        let keep = concat (map (\<lambda>r. take 1 (cards_of_rank r hand_cards)) window);
            discard = filter (\<lambda>c. \<not> card_in c keep) hand_cards
        in ebind (calculate_draw_probability 2 8 (52 - 8)) (\<lambda>prob.
           if prob > 5 / 100 then
             ebind (estimate_hand_score gs STRAIGHT (Some keep)) (\<lambda>est.
             Inr (Some \<lparr>pot_hand_type = STRAIGHT, cards_needed = 2,
                        cards_to_discard = take 5 discard, cards_to_keep = keep,
                        probability = prob, pot_expected_score = est\<rparr>))
           else straight3_loop gs hand_cards sorted_ranks rest)
      else straight3_loop gs hand_cards sorted_ranks rest)"

definition find_straight_potential ::
  "game_state \<Rightarrow> card list \<Rightarrow> int list \<Rightarrow> error + potential_hand option" where
  "find_straight_potential gs hand_cards sorted_ranks =
     ebind (straight4_loop gs hand_cards sorted_ranks [0 ..< length sorted_ranks - 3]) (\<lambda>r.
       case r of
         Some p \<Rightarrow> Inr (Some p)
       | None \<Rightarrow> straight3_loop gs hand_cards sorted_ranks [0 ..< length sorted_ranks - 2])"

text \<open>Section 3: the body of the loop that looks for three of a rank.\<close>

definition four_kind_potential :: "game_state \<Rightarrow> int \<times> nat \<Rightarrow> error + potential_hand list" where
  "four_kind_potential gs rc =
     (case rc of (r, count) \<Rightarrow>
        if count = 3 then
          let keep = cards_of_rank r (hand gs);
              discard = filter (\<lambda>c. rank c \<noteq> r) (hand gs)
          in ebind (calculate_draw_probability 1 1 (52 - 8)) (\<lambda>prob.
             ebind (estimate_hand_score gs FOUR_OF_A_KIND (Some keep)) (\<lambda>est.
             Inr [\<lparr>pot_hand_type = FOUR_OF_A_KIND, cards_needed = 1,
                   cards_to_discard = take 3 discard, cards_to_keep = keep,
                   probability = prob, pot_expected_score = est\<rparr>]))
        else Inr [])"

text \<open>Section 4: full house, already formed or from two pairs.\<close>

definition full_house_potential ::
  "game_state \<Rightarrow> (int \<times> nat) list \<Rightarrow> error + potential_hand list" where
  "full_house_potential gs rank_counts =
     (let pairs = filter (\<lambda>p. snd p \<ge> 2) rank_counts in
      if length pairs \<ge> 2 then
        let trips = filter (\<lambda>p. snd p \<ge> 3) pairs;
            twos = filter (\<lambda>p. snd p = 2) pairs
        in
        if trips \<noteq> [] \<and> twos \<noteq> [] then
          ebind (estimate_hand_score gs FULL_HOUSE (Some (take 5 (hand gs)))) (\<lambda>est.
          Inr [\<lparr>pot_hand_type = FULL_HOUSE, cards_needed = 0, cards_to_discard = [],
                cards_to_keep = hand gs, probability = 1, pot_expected_score = est\<rparr>])
        else if length twos \<ge> 2 then
          let best_pair_rank = Max (set (map fst twos));
              other_pair_rank = Min (set (map fst twos));
              keep = cards_of_rank best_pair_rank (hand gs) @ cards_of_rank other_pair_rank (hand gs);
              discard = filter (\<lambda>c. \<not> card_in c keep) (hand gs)
          in ebind (calculate_draw_probability 1 4 (52 - 8)) (\<lambda>prob.
             ebind (estimate_hand_score gs FULL_HOUSE (Some keep)) (\<lambda>est.
             Inr [\<lparr>pot_hand_type = FULL_HOUSE, cards_needed = 1,
                   cards_to_discard = discard, cards_to_keep = keep,
                   probability = prob, pot_expected_score = est\<rparr>]))
        else Inr []
      else Inr [])"

text \<open>Section 5: the body of the loop that looks for a pair.\<close>

definition three_kind_potential :: "game_state \<Rightarrow> int \<times> nat \<Rightarrow> error + potential_hand list" where
  "three_kind_potential gs rc =
     (case rc of (r, count) \<Rightarrow>
        if count = 2 then
          let keep = cards_of_rank r (hand gs);
              discard = filter (\<lambda>c. rank c \<noteq> r) (hand gs)
          in ebind (calculate_draw_probability 1 2 (52 - 8)) (\<lambda>prob.
             ebind (estimate_hand_score gs THREE_OF_A_KIND (Some keep)) (\<lambda>est.
             Inr [\<lparr>pot_hand_type = THREE_OF_A_KIND, cards_needed = 1,
                   cards_to_discard = take 3 discard, cards_to_keep = keep,
                   probability = prob, pot_expected_score = est\<rparr>]))
        else Inr [])"

text \<open>
  \<^verbatim>\<open>StrategyOptimizer.analyze_potential_hands\<close>: the five sections in order, then the stable
  sort in descending order of \<^verbatim>\<open>expected_score * probability\<close>.
\<close>

definition analyze_potential_hands :: "game_state \<Rightarrow> error + potential_hand list" where
  "analyze_potential_hands gs =
     (let rank_counts = Counter (map rank (hand gs));
          suit_counts = Counter (map suit (hand gs))
      in
      ebind (emap (flush_potential gs) suit_counts) (\<lambda>flushes.
      ebind (find_straight_potential gs (hand gs) (sort (remdups (map fst rank_counts)))) (\<lambda>straight.
      ebind (emap (four_kind_potential gs) rank_counts) (\<lambda>fours.
      ebind (full_house_potential gs rank_counts) (\<lambda>fulls.
      ebind (emap (three_kind_potential gs) rank_counts) (\<lambda>threes.
      Inr (sort_key (\<lambda>p. - (of_int (pot_expected_score p) * probability p))
             (concat flushes @ (case straight of Some p \<Rightarrow> [p] | None \<Rightarrow> [])
              @ concat fours @ fulls @ concat threes))))))))"

text \<open>The value that the fallback of \<^verbatim>\<open>_analyze_discards\<close> gives a candidate card.\<close>

definition discard_card_value :: "(int \<times> nat) list \<Rightarrow> (suit \<times> nat) list \<Rightarrow> card \<Rightarrow> int" where
  "discard_card_value rank_counts suit_counts c =
     int (count_of rank_counts (rank c)) * 20
     + int (count_of suit_counts (suit c)) * 5
     + (if rank c \<ge> 10 then 10 else 0)
     + (if rank c = 14 then 15 else 0)
     + (if enhancement c \<noteq> EnhNONE then 30 else 0)
     + (if edition c \<noteq> EdNONE then 40 else 0)"

text \<open>\<^verbatim>\<open>StrategyOptimizer._analyze_discards\<close>.\<close>

definition analyze_discards :: "game_state \<Rightarrow> card list \<Rightarrow> card list \<Rightarrow> error + action" where
  "analyze_discards gs hand_cards candidates =
     ebind (analyze_potential_hands gs) (\<lambda>potential_hands.
       let fallback =
             (let rank_counts = Counter (map rank hand_cards);
                  suit_counts = Counter (map suit hand_cards);
                  card_values = sort_key (discard_card_value rank_counts suit_counts) candidates;
                  to_discard = take (min 5 (length card_values)) card_values
              in \<lparr>action_type = DISCARD, cards = to_discard, expected_score = 0,
                  act_hand_type = None, reasoning = DiscardExplanation\<rparr>)
       in
       case potential_hands of
         [] \<Rightarrow> Inr fallback
       | best_potential # _ \<Rightarrow>
           if probability best_potential \<ge> 1 / 10 \<and> cards_needed best_potential > 0 then
             Inr \<lparr>action_type = DISCARD, cards = take 5 (cards_to_discard best_potential),
                  expected_score =
                    py_int (of_int (pot_expected_score best_potential) * probability best_potential),
                  act_hand_type = Some (pot_hand_type best_potential),
                  reasoning = DiscardExplanation\<rparr>
           else Inr fallback)"

text \<open>
  \<^verbatim>\<open>find_best_discard\<close> tells the cards of the best play from the rest of the hand by object
  identity (\<^verbatim>\<open>id(c)\<close>). The cards of a hand are taken to be distinct objects, so that the
  identity of a card object is its position in the hand: \<open>best_play_positions\<close> runs the
  loop of \<^verbatim>\<open>find_best_play\<close> over positions.
\<close>

definition position_step :: "game_state \<Rightarrow> int \<times> nat list \<Rightarrow> nat list \<Rightarrow> int \<times> nat list" where
  "position_step gs best ps =
     (let a = play_action gs (map (\<lambda>i. hand gs ! i) ps)
      in if expected_score a > fst best then (expected_score a, ps) else best)"

definition best_play_positions :: "game_state \<Rightarrow> nat list" where
  "best_play_positions gs =
     snd (foldl (position_step gs) (- 1, []) (candidate_combos [0 ..< length (hand gs)]))"

text \<open>
  \<^verbatim>\<open>StrategyOptimizer.find_best_discard\<close>. When \<^verbatim>\<open>find_best_play\<close> returned \<^verbatim>\<open>None\<close>, reading
  \<^verbatim>\<open>current_best.cards\<close> raises AttributeError.
\<close>

definition find_best_discard :: "game_state \<Rightarrow> error + action" where
  "find_best_discard gs =
     (if \<not> can_discard gs
      then Inr \<lparr>action_type = DISCARD, cards = [], expected_score = 0,
                act_hand_type = None, reasoning = NoDiscardsLeft\<rparr>
      else
        case find_best_play gs of
          None \<Rightarrow> Inl AttributeError
        | Some current_best \<Rightarrow>
            let scoring_positions = best_play_positions gs;
                discard_candidates =
                  map (\<lambda>i. hand gs ! i)
                      (filter (\<lambda>i. i \<notin> set scoring_positions) [0 ..< length (hand gs)])
            in if discard_candidates = []
               then Inr \<lparr>action_type = DISCARD, cards = [], expected_score = 0,
                         act_hand_type = None, reasoning = AllCardsUseful\<rparr>
               else analyze_discards gs (hand gs) discard_candidates)"


subsection \<open>Multi-turn strategy (calculate\_strategy)\<close>

datatype strategy_note = AlreadyWon | DiscardToImprove | EnoughHands | NotEnoughHands | BelowTarget int int

record strategy =
  actions :: "action list"
  total_expected_score :: int
  hands_needed :: int
  discards_used :: int
  success_probability :: rat
  strategy_notes :: "strategy_note list"

text \<open>\<^verbatim>\<open>Strategy()\<close> with the dataclass defaults.\<close>

definition Strategy :: strategy where
  "Strategy = \<lparr>actions = [], total_expected_score = 0, hands_needed = 0, discards_used = 0,
               success_probability = 0, strategy_notes = []\<rparr>"

text \<open>\<^verbatim>\<open>StrategyOptimizer._count_consecutive\<close>.\<close>

definition count_consecutive :: "int list \<Rightarrow> int" where
  "count_consecutive sorted_ranks =
     (if length sorted_ranks < 2 then int (length sorted_ranks)
      else
        let run = foldl (\<lambda>mc i. if sorted_ranks ! i = sorted_ranks ! (i - 1) + 1
                                 then (max (fst mc) (snd mc + 1), snd mc + 1)
                                 else (fst mc, 1))
                        (1, 1) [1 ..< length sorted_ranks];
            max_consecutive = fst run
        in if 14 \<in> set sorted_ranks \<and> 2 \<in> set sorted_ranks
           then max max_consecutive
                  (1 + int (length (filter (\<lambda>r. r \<in> set sorted_ranks) [2, 3, 4, 5])))
           else max_consecutive)"

text \<open>\<^verbatim>\<open>max(d.values()) if d else 0\<close>.\<close>

definition max_count :: "('a \<times> nat) list \<Rightarrow> nat" where
  "max_count kvs = foldl max 0 (map snd kvs)"

text \<open>\<^verbatim>\<open>StrategyOptimizer._estimate_discard_value\<close>.\<close>

definition estimate_discard_value :: "game_state \<Rightarrow> int" where
  "estimate_discard_value st =
     (let rank_counts = Counter (map rank (hand st));
          suit_counts = Counter (map suit (hand st));
          max_suit = max_count suit_counts;
          v1 = (if max_suit = 4 then 200 else if max_suit = 3 then 50 else 0);
          consecutive = count_consecutive (sort (remdups (map fst rank_counts)));
          v2 = (if consecutive = 4 then 150 else if consecutive = 3 then 30 else 0);
          max_rank = max_count rank_counts;
          v3 = (if max_rank = 3 then 100
                else if max_rank = 2 \<and> length (filter (\<lambda>rc. snd rc \<ge> 2) rank_counts) \<ge> 2 then 80
                else 0)
      in v1 + v2 + v3)"

text \<open>
  \<^verbatim>\<open>for card in cs: if card in hand: hand.remove(card)\<close>: each card removes the first card
  of the hand that \<^verbatim>\<open>Card.__eq__\<close> makes equal to it.
\<close>

fun remove_first :: "card \<Rightarrow> card list \<Rightarrow> card list" where
  "remove_first c [] = []"
| "remove_first c (x # xs) = (if card_eq x c then xs else x # remove_first c xs)"

definition remove_cards :: "card list \<Rightarrow> card list \<Rightarrow> card list" where
  "remove_cards cs hand_cards = foldl (\<lambda>h c. remove_first c h) hand_cards cs"

text \<open>
  The \<^verbatim>\<open>while\<close> loop of \<^verbatim>\<open>calculate_strategy\<close> on the simulated state, the running total and
  the strategy under construction. It returns the simulated state as the loop left it,
  with either the exception raised or the final total and strategy. A best play of \<^verbatim>\<open>None\<close>
  raises AttributeError at the first read of \<^verbatim>\<open>best_play.expected_score\<close>, before the
  simulated state is touched. The float product \<^verbatim>\<open>expected_score * 0.3\<close> is the rational
  \<open>3/10\<close> of the score.
\<close>

function strategy_loop ::
  "int \<Rightarrow> game_state \<Rightarrow> int \<Rightarrow> strategy \<Rightarrow> (error + int \<times> strategy) \<times> game_state" where
  "strategy_loop target sim total_score strat =
     (if total_score < target \<and> hands_remaining sim > 0 then
        (case find_best_play sim of
           None \<Rightarrow> (Inl AttributeError, sim)
         | Some best_play \<Rightarrow>
             if discards_remaining sim > 0
                \<and> (of_int (estimate_discard_value sim) :: rat) > of_int (expected_score best_play) * (3 / 10)
                \<and> hands_remaining sim > 1
             then
               (case find_best_discard sim of
                  Inl e \<Rightarrow> (Inl e, sim)
                | Inr discard_action \<Rightarrow>
                    if cards discard_action \<noteq> [] then
                      strategy_loop target
                        (sim\<lparr>discards_remaining := discards_remaining sim - 1,
                             hand := remove_cards (cards discard_action) (hand sim)\<rparr>)
                        total_score
                        (strat\<lparr>actions := actions strat @ [discard_action],
                               discards_used := discards_used strat + 1,
                               strategy_notes := strategy_notes strat @ [DiscardToImprove]\<rparr>)
                    else
                      strategy_loop target
                        (sim\<lparr>hands_remaining := hands_remaining sim - 1,
                             hand := remove_cards (cards best_play) (hand sim)\<rparr>)
                        (total_score + expected_score best_play)
                        (strat\<lparr>actions := actions strat @ [best_play],
                               hands_needed := hands_needed strat + 1\<rparr>))
             else
               strategy_loop target
                 (sim\<lparr>hands_remaining := hands_remaining sim - 1,
                      hand := remove_cards (cards best_play) (hand sim)\<rparr>)
                 (total_score + expected_score best_play)
                 (strat\<lparr>actions := actions strat @ [best_play],
                        hands_needed := hands_needed strat + 1\<rparr>))
      else (Inr (total_score, strat), sim))"
  by pat_completeness auto
termination
  by (relation "measure (\<lambda>(target, sim, total_score, strat).
        nat (hands_remaining sim) + nat (discards_remaining sim))") auto

declare strategy_loop.simps [simp del]

text \<open>
  The end of \<^verbatim>\<open>calculate_strategy\<close>: the success probability from the final total_score, the
  target, the plays counted and the hands of the caller's state. The floats 0.95 and 0.8
  are the rationals \<open>19/20\<close> and \<open>4/5\<close>; \<^verbatim>\<open>total_score / target\<close> raises ZeroDivisionError
  for a target of 0.
\<close>

definition finish_strategy :: "int \<Rightarrow> int \<Rightarrow> int \<Rightarrow> strategy \<Rightarrow> error + strategy" where
  "finish_strategy target caller_hands total_score strat =
     (let strat = strat\<lparr>total_expected_score := total_score\<rparr> in
      if total_score \<ge> target then
        if hands_needed strat \<le> caller_hands
        then Inr (strat\<lparr>success_probability := 19 / 20, strategy_notes := strategy_notes strat @ [EnoughHands]\<rparr>)
        else Inr (strat\<lparr>success_probability := 0, strategy_notes := strategy_notes strat @ [NotEnoughHands]\<rparr>)
      else
        ebind (py_div (of_int total_score) (of_int target)) (\<lambda>q.
        Inr (strat\<lparr>success_probability := min (4 / 5) q,
                   strategy_notes := strategy_notes strat @ [BelowTarget total_score target]\<rparr>)))"

text \<open>
  The object store: game states live at addresses (positions of the list). The optimizer
  holds the address \<open>self\<close> of the caller's state. \<^verbatim>\<open>GameState.copy\<close> (\<^verbatim>\<open>copy.deepcopy\<close>)
  allocates a new object with the same value at a fresh address.
\<close>

type_synonym heap = "game_state list"

definition state_copy :: "heap \<Rightarrow> nat \<Rightarrow> nat \<times> heap" where
  "state_copy h a = (length h, h @ [h ! a])"

text \<open>
  \<^verbatim>\<open>StrategyOptimizer.calculate_strategy\<close> on the store: the result (or the exception) and
  the store after the call. The loop reads and writes the object at the address \<open>sim\<close>
  that \<^verbatim>\<open>copy\<close> returned; \<^verbatim>\<open>self.state.hands_remaining\<close> is read from the store after the
  loop.
\<close>

definition calculate_strategy :: "heap \<Rightarrow> nat \<Rightarrow> (error + strategy) \<times> heap" where
  "calculate_strategy h self =
     (let target = target_score (blind (h ! self));
          current = current_score (h ! self);
          needed = target - current
      in
      if needed \<le> 0
      then (Inr (Strategy\<lparr>success_probability := 1, strategy_notes := [AlreadyWon]\<rparr>), h)
      else
        (case state_copy h self of (sim, h1) \<Rightarrow>
           (case strategy_loop target (h1 ! sim) current Strategy of (res, sim_final) \<Rightarrow>
              (let h2 = h1[sim := sim_final] in
               (case res of
                  Inl e \<Rightarrow> (Inl e, h2)
                | Inr (total_score, strat) \<Rightarrow>
                    (finish_strategy target (hands_remaining (h2 ! self)) total_score strat,
                     h2))))))"


section \<open>Constructors, catalogue and reference definitions\<close>

text \<open>\<^verbatim>\<open>JOKER_DATABASE\<close> and \<^verbatim>\<open>create_joker\<close>.\<close>

definition JOKER_DATABASE :: "(string \<times> joker_effect) list" where
  "JOKER_DATABASE =
     [(''Joker'', JokerEffect\<lparr>flat_mult := 4\<rparr>),
      (''Greedy Joker'', JokerEffect\<lparr>flat_mult := 3\<rparr>),
      (''Lusty Joker'', JokerEffect\<lparr>flat_mult := 3\<rparr>),
      (''Wrathful Joker'', JokerEffect\<lparr>flat_mult := 3\<rparr>),
      (''Gluttonous Joker'', JokerEffect\<lparr>flat_mult := 3\<rparr>),
      (''Jolly Joker'', JokerEffect\<lparr>flat_mult := 8, conditional := Some ''pair''\<rparr>),
      (''Zany Joker'', JokerEffect\<lparr>flat_mult := 12, conditional := Some ''three_of_a_kind''\<rparr>),
      (''Mad Joker'', JokerEffect\<lparr>flat_mult := 10, conditional := Some ''two_pair''\<rparr>),
      (''Crazy Joker'', JokerEffect\<lparr>flat_mult := 12, conditional := Some ''straight''\<rparr>),
      (''Droll Joker'', JokerEffect\<lparr>flat_mult := 10, conditional := Some ''flush''\<rparr>),
      (''Sly Joker'', JokerEffect\<lparr>flat_chips := 50, conditional := Some ''pair''\<rparr>),
      (''Wily Joker'', JokerEffect\<lparr>flat_chips := 100, conditional := Some ''three_of_a_kind''\<rparr>),
      (''Clever Joker'', JokerEffect\<lparr>flat_chips := 80, conditional := Some ''two_pair''\<rparr>),
      (''Devious Joker'', JokerEffect\<lparr>flat_chips := 100, conditional := Some ''straight''\<rparr>),
      (''Crafty Joker'', JokerEffect\<lparr>flat_chips := 80, conditional := Some ''flush''\<rparr>),
      (''Half Joker'', JokerEffect\<lparr>flat_mult := 20, conditional := Some ''hand_size_lte_3''\<rparr>),
      (''Banner'', JokerEffect\<lparr>flat_chips := 30\<rparr>),
      (''Mystic Summit'', JokerEffect\<lparr>flat_mult := 15, conditional := Some ''discards_0''\<rparr>),
      (''Fibonacci'', JokerEffect\<lparr>flat_mult := 8\<rparr>),
      (''Steel Joker'', JokerEffect\<lparr>x_mult := 1\<rparr>),
      (''Scary Face'', JokerEffect\<lparr>flat_chips := 30\<rparr>),
      (''Abstract Joker'', JokerEffect\<lparr>flat_mult := 3\<rparr>),
      (''Ride the Bus'', JokerEffect\<lparr>flat_mult := 1\<rparr>),
      (''Blackboard'', JokerEffect\<lparr>x_mult := 3, conditional := Some ''all_spades_clubs''\<rparr>),
      (''The Duo'', JokerEffect\<lparr>x_mult := 2, conditional := Some ''pair''\<rparr>),
      (''The Trio'', JokerEffect\<lparr>x_mult := 3, conditional := Some ''three_of_a_kind''\<rparr>),
      (''The Family'', JokerEffect\<lparr>x_mult := 4, conditional := Some ''four_of_a_kind''\<rparr>),
      (''The Order'', JokerEffect\<lparr>x_mult := 3, conditional := Some ''straight''\<rparr>),
      (''The Tribe'', JokerEffect\<lparr>x_mult := 2, conditional := Some ''flush''\<rparr>)]"

definition create_joker :: "string \<Rightarrow> edition \<Rightarrow> joker" where
  "create_joker n ed =
     \<lparr>name = n, rarity = ''common'', joker_edition = ed,
      effect = (case map_of JOKER_DATABASE n of Some e \<Rightarrow> e | None \<Rightarrow> JokerEffect)\<rparr>"

text \<open>\<^verbatim>\<open>BlindInfo(name, target_score)\<close> and \<^verbatim>\<open>GameState()\<close> with the dataclass defaults.\<close>

definition BlindInfo :: "string \<Rightarrow> int \<Rightarrow> blind_info" where
  "BlindInfo n t =
     \<lparr>blind_name = n, target_score = t, reward = 0, is_boss = False, special_effect = None\<rparr>"

definition GameState :: game_state where
  "GameState =
     \<lparr>hand = [], deck = [], jokers = [], hand_levels = (\<lambda>ht. Some 1), hands_remaining = 4,
      discards_remaining = 3, money = 0, blind = BlindInfo ''Small Blind'' 300,
      current_score = 0, ante = 1, round_in_ante = 1, cards_played_this_round = []\<rparr>"

text \<open>
  The chip value as the specification words it: Stone gives 50; otherwise the rank for
  2 to 10, 10 for Jack, Queen and King, 11 for the Ace, plus 30 for Bonus, plus 50 for Foil.
\<close>

definition spec_chip_value :: "card \<Rightarrow> int" where
  "spec_chip_value c =
     (if enhancement c = STONE then 50
      else (if rank c = 14 then 11 else if rank c \<in> {11, 12, 13} then 10 else rank c)
           + (if enhancement c = BONUS then 30 else 0)
           + (if edition c = FOIL then 50 else 0))"

text \<open>
  The card tokens of the specification: a rank symbol followed by a suit letter, in any
  letter case.
\<close>

definition rank_symbols :: "string list" where
  "rank_symbols =
     [''A'', ''K'', ''Q'', ''J'', ''T'', ''10'', ''9'', ''8'', ''7'', ''6'', ''5'', ''4'', ''3'', ''2'']"

definition suit_letters :: string where
  "suit_letters = ''HDCS''"

definition upper_tokens :: "string list" where
  "upper_tokens = concat (map (\<lambda>r. map (\<lambda>s. r @ [s]) suit_letters) rank_symbols)"

definition valid_token :: "string \<Rightarrow> bool" where
  "valid_token t \<longleftrightarrow> upper t \<in> set upper_tokens"

text \<open>The hash keys of the cards with a rank from 2 to 14.\<close>

definition card_keys :: "(int \<times> suit \<times> enhancement \<times> edition \<times> seal) set" where
  "card_keys = {k. 2 \<le> fst k \<and> fst k \<le> 14}"

text \<open>
  States whose hand levels are at least 1 and whose entities add and multiply by
  non-negative amounts, as every entry of the catalogue does.
\<close>

definition nonneg_state :: "game_state \<Rightarrow> bool" where
  "nonneg_state gs \<longleftrightarrow>
     (\<forall>ht. get_hand_level gs ht \<ge> 1) \<and>
     (\<forall>j \<in> set (jokers gs).
        flat_chips (effect j) \<ge> 0 \<and> flat_mult (effect j) \<ge> 0 \<and> x_mult (effect j) \<ge> 0)"

text \<open>
  The score components as the specification words them. An entity applies when it has no
  condition or its condition holds; its edition counts in either case.
\<close>

definition joker_applies ::
  "joker \<Rightarrow> card list \<Rightarrow> hand_type \<Rightarrow> card list \<Rightarrow> game_state \<Rightarrow> bool" where
  "joker_applies j cs ht scoring_cards gs \<longleftrightarrow>
     (case conditional (effect j) of
        None \<Rightarrow> True
      | Some cond \<Rightarrow> cond = [] \<or> check_condition cond cs ht scoring_cards gs)"

definition spec_chips :: "card list \<Rightarrow> game_state \<Rightarrow> int" where
  "spec_chips cs gs =
     (case get_hand_type cs of (ht, scoring_cards) \<Rightarrow>
        level_chips ht (get_hand_level gs ht)
        + sum_list (map chip_value scoring_cards)
        + sum_list (map (\<lambda>j. (if joker_applies j cs ht scoring_cards gs
                               then flat_chips (effect j) else 0)
                              + (if joker_edition j = FOIL then 50 else 0)) (jokers gs)))"

definition spec_mult :: "card list \<Rightarrow> game_state \<Rightarrow> int" where
  "spec_mult cs gs =
     (case get_hand_type cs of (ht, scoring_cards) \<Rightarrow>
        level_mult ht (get_hand_level gs ht)
        + sum_list (map (\<lambda>c. (if enhancement c = MULT then 4 else 0)
                              + (if edition c = HOLOGRAPHIC then 10 else 0)) scoring_cards)
        + sum_list (map (\<lambda>j. (if joker_applies j cs ht scoring_cards gs
                               then flat_mult (effect j) else 0)
                              + (if joker_edition j = HOLOGRAPHIC then 10 else 0)) (jokers gs)))"

definition spec_x_mult :: "card list \<Rightarrow> game_state \<Rightarrow> rat" where
  "spec_x_mult cs gs =
     (case get_hand_type cs of (ht, scoring_cards) \<Rightarrow>
        prod_list (map (\<lambda>c. (if enhancement c = GLASS then 2 else 1)
                             * (if edition c = POLYCHROME then 3 / 2 else 1)) scoring_cards)
        * prod_list (map (\<lambda>j. (if joker_applies j cs ht scoring_cards gs
                                then x_mult (effect j) else 1)
                               * (if joker_edition j = POLYCHROME then 3 / 2 else 1)) (jokers gs)))"

text \<open>The hand of the worked scenario: A\<spadesuit> A\<heartsuit> K\<spadesuit> K\<heartsuit> Q\<diamondsuit> 7\<clubsuit> 3\<spadesuit> 2\<heartsuit>.\<close>

definition scenario_hand :: "card list" where
  "scenario_hand =
     [Card 14 SPADES, Card 14 HEARTS, Card 13 SPADES, Card 13 HEARTS,
      Card 12 DIAMONDS, Card 7 CLUBS, Card 3 SPADES, Card 2 HEARTS]"


text \<open>
  States without entities, with hand levels of at least 1 and fewer than 13 cards in hand.
\<close>

definition entity_free_state :: "game_state \<Rightarrow> bool" where
  "entity_free_state gs \<longleftrightarrow>
     jokers gs = [] \<and> (\<forall>ht. get_hand_level gs ht \<ge> 1) \<and> length (hand gs) < 13"

text \<open>The plays among the actions of a strategy.\<close>

definition plays_of :: "action list \<Rightarrow> action list" where
  "plays_of as = filter (\<lambda>a. action_type a = PLAY) as"


definition scenario_850 :: game_state where
  "scenario_850 =
     GameState\<lparr>hand := [Card 5 SPADES, Card 5 HEARTS],
               jokers := [create_joker ''Banner'' EdNONE, create_joker ''Mystic Summit'' EdNONE],
               hands_remaining := 1,
               discards_remaining := 0,
               blind := BlindInfo ''Big Blind'' 800\<rparr>"

text \<open>
  A state with four hearts and a spade in hand and the catalogue entity \<^verbatim>\<open>Joker\<close>, with the
  defaults of \<^verbatim>\<open>GameState\<close> otherwise: four hands, three discards and a target of 300.
\<close>

definition flush_draw_state :: game_state where
  "flush_draw_state =
     GameState\<lparr>hand := [Card 2 HEARTS, Card 5 HEARTS, Card 9 HEARTS, Card 13 HEARTS, Card 7 SPADES],
               jokers := [create_joker ''Joker'' EdNONE]\<rparr>"

section \<open>Properties of the card model\<close>

text \<open>
  Claim C7. For a card with a rank from 2 to 14, \<open>chip_value\<close> is the value the
  specification words: 50 for Stone, otherwise the rank's base (the rank for 2 to 10, 10 for
  Jack, Queen and King, 11 for the Ace) plus 30 for Bonus plus 50 for Foil. For every card,
  changing the edition between editions other than Foil leaves the value unchanged and Foil
  adds 50 to a card that is not Stone; changing the enhancement between enhancements other
  than Bonus and Stone leaves it unchanged, Bonus adds 30 and Stone fixes it at 50.
\<close>

theorem chip_value_spec:
  "(2 \<le> rank c \<and> rank c \<le> 14 \<longrightarrow> chip_value c = spec_chip_value c)
   \<and> (\<forall>e. e \<noteq> FOIL \<and> edition c \<noteq> FOIL \<longrightarrow> chip_value (c\<lparr>edition := e\<rparr>) = chip_value c)
   \<and> (enhancement c \<noteq> STONE \<longrightarrow>
        chip_value (c\<lparr>edition := FOIL\<rparr>) = chip_value (c\<lparr>edition := EdNONE\<rparr>) + 50)
   \<and> (\<forall>n. n \<notin> {BONUS, STONE} \<and> enhancement c \<notin> {BONUS, STONE} \<longrightarrow>
        chip_value (c\<lparr>enhancement := n\<rparr>) = chip_value c)
   \<and> chip_value (c\<lparr>enhancement := BONUS\<rparr>) = chip_value (c\<lparr>enhancement := EnhNONE\<rparr>) + 30
   \<and> chip_value (c\<lparr>enhancement := STONE\<rparr>) = 50"
  by (auto simp: chip_value_def spec_chip_value_def Let_def)

theorem chip_value_spec_witness:
  "2 \<le> rank (Card 12 HEARTS) \<and> rank (Card 12 HEARTS) \<le> 14
   \<and> chip_value (Card 12 HEARTS) = spec_chip_value (Card 12 HEARTS)
   \<and> chip_value (Card 12 HEARTS) = 10
   \<and> HOLOGRAPHIC \<noteq> FOIL \<and> edition (Card 12 HEARTS) \<noteq> FOIL
   \<and> chip_value ((Card 12 HEARTS)\<lparr>edition := HOLOGRAPHIC\<rparr>) = 10
   \<and> enhancement (Card 12 HEARTS) \<noteq> STONE
   \<and> chip_value ((Card 12 HEARTS)\<lparr>edition := FOIL\<rparr>) = 60
   \<and> GLASS \<notin> {BONUS, STONE} \<and> enhancement (Card 12 HEARTS) \<notin> {BONUS, STONE}
   \<and> chip_value ((Card 12 HEARTS)\<lparr>enhancement := GLASS\<rparr>) = 10
   \<and> chip_value ((Card 12 HEARTS)\<lparr>enhancement := BONUS\<rparr>) = 40"
  using chip_value_spec [of "Card 12 HEARTS"]
  by (simp add: Card_def spec_chip_value_def)

text \<open>
  Claim C10. Card equality compares rank, suit and enhancement only, while the hash is
  taken over rank, suit, enhancement, edition and seal. For a hash function without
  collisions on the keys of the cards, two equal cards that differ in edition or seal have
  different hashes, and such cards exist.
\<close>

theorem card_eq_hash_inconsistent:
  "(\<forall>a b. card_eq a b \<longleftrightarrow> rank a = rank b \<and> suit a = suit b \<and> enhancement a = enhancement b)
   \<and> (\<forall>a. card_hash h a = h (rank a, suit a, enhancement a, edition a, seal a))
   \<and> (inj_on h card_keys \<longrightarrow>
        (\<exists>a b. card_eq a b \<and> card_hash h a \<noteq> card_hash h b)
        \<and> (\<forall>a b. 2 \<le> rank a \<and> rank a \<le> 14 \<and> card_eq a b
                  \<and> (edition a \<noteq> edition b \<or> seal a \<noteq> seal b)
                  \<longrightarrow> card_hash h a \<noteq> card_hash h b))"
proof -
  have sep: "card_hash h a \<noteq> card_hash h b"
    if inj: "inj_on h card_keys" and r: "2 \<le> rank a" "rank a \<le> 14" and eq: "card_eq a b"
      and diff: "edition a \<noteq> edition b \<or> seal a \<noteq> seal b" for a b
  proof
    assume "card_hash h a = card_hash h b"
    moreover have "(rank a, suit a, enhancement a, edition a, seal a) \<in> card_keys"
      using r by (simp add: card_keys_def)
    moreover have "(rank b, suit b, enhancement b, edition b, seal b) \<in> card_keys"
      using r eq by (simp add: card_keys_def card_eq_def)
    ultimately have "(rank a, suit a, enhancement a, edition a, seal a)
        = (rank b, suit b, enhancement b, edition b, seal b)"
      using inj by (auto simp: card_hash_def dest: inj_onD)
    with diff show False by simp
  qed
  have ex: "\<exists>a b. card_eq a b \<and> card_hash h a \<noteq> card_hash h b" if inj: "inj_on h card_keys"
  proof -
    have "card_eq (Card 14 SPADES) ((Card 14 SPADES)\<lparr>edition := FOIL\<rparr>)"
      by (simp add: card_eq_def Card_def)
    moreover have "card_hash h (Card 14 SPADES) \<noteq> card_hash h ((Card 14 SPADES)\<lparr>edition := FOIL\<rparr>)"
      by (rule sep [OF inj]) (simp_all add: card_eq_def Card_def)
    ultimately show ?thesis by blast
  qed
  show ?thesis
    using sep ex by (auto simp: card_eq_def card_hash_def)
qed

theorem card_eq_hash_inconsistent_witness:
  "inj_on (\<lambda>k :: int \<times> suit \<times> enhancement \<times> edition \<times> seal. k) card_keys
   \<and> 2 \<le> rank (Card 14 SPADES) \<and> rank (Card 14 SPADES) \<le> 14
   \<and> card_eq (Card 14 SPADES) ((Card 14 SPADES)\<lparr>seal := RED\<rparr>)
   \<and> seal (Card 14 SPADES) \<noteq> seal ((Card 14 SPADES)\<lparr>seal := RED\<rparr>)
   \<and> card_hash (\<lambda>k. k) (Card 14 SPADES) \<noteq> card_hash (\<lambda>k. k) ((Card 14 SPADES)\<lparr>seal := RED\<rparr>)"
  using card_eq_hash_inconsistent [of "\<lambda>k. k"]
  by (simp add: card_eq_def Card_def)

subsection \<open>Card tokens\<close>

lemma upper_char_idem: "upper_char (upper_char c) = upper_char c"
proof -
  have "(of_char c :: nat) < 256" by simp
  then show ?thesis
    by (auto simp: upper_char_def less_eq_char_def)
qed

lemma upper_idem: "upper (upper t) = upper t"
  by (simp add: upper_def upper_char_idem)

lemma parse_card_upper: "parse_card t = parse_card (upper t)"
  by (simp add: parse_card_def upper_idem)

lemma upper_tokens_round_trip:
  "list_all (\<lambda>u. case parse_card u of
                   Inl e \<Rightarrow> False
                 | Inr c \<Rightarrow> parse_card (short_name c) = Inr c
                            \<and> (if butlast u = ''T'' then short_name c = ''10'' @ [last u]
                                else short_name c = u))
            upper_tokens"
  by code_simp

text \<open>
  The token \<^verbatim>\<open>TS\<close> is valid and parses, but the short name of the card it yields is
  \<^verbatim>\<open>10S\<close>: the round trip of claim C8 does not give the token back.
\<close>

theorem token_T_counterexample:
  "valid_token ''TS'' \<and> \<not> (\<exists>c. parse_card ''TS'' = Inr c \<and> short_name c = upper ''TS'')"
proof -
  have v: "valid_token ''TS''" by code_simp
  have p: "parse_card ''TS'' = Inr (Card 10 SPADES)" by code_simp
  have s: "short_name (Card 10 SPADES) \<noteq> upper ''TS''" by code_simp
  show ?thesis using v p s by auto
qed

text \<open>
  Claim C8, amended. Every valid token parses to a card; the short name of that card
  parses back to the same card; and the short name is the token in upper case, except for
  the rank symbol \<^verbatim>\<open>T\<close>, which is rendered as \<^verbatim>\<open>10\<close> before the suit letter.
\<close>

theorem token_round_trip:
  "valid_token t \<Longrightarrow>
     \<exists>c. parse_card t = Inr c
        \<and> parse_card (short_name c) = Inr c
        \<and> (if butlast (upper t) = ''T'' then short_name c = ''10'' @ [last (upper t)]
            else short_name c = upper t)"
proof -
  assume "valid_token t"
  then have "upper t \<in> set upper_tokens"
    by (simp add: valid_token_def)
  with upper_tokens_round_trip
  have "case parse_card (upper t) of
          Inl e \<Rightarrow> False
        | Inr c \<Rightarrow> parse_card (short_name c) = Inr c
                   \<and> (if butlast (upper t) = ''T'' then short_name c = ''10'' @ [last (upper t)]
                       else short_name c = upper t)"
    by (simp add: list_all_iff)
  then show ?thesis
    by (auto simp: parse_card_upper [of t] split: sum.splits)
qed

theorem token_round_trip_witness:
  "valid_token ''10h'' \<and> parse_card ''10h'' = Inr (Card 10 HEARTS)
   \<and> short_name (Card 10 HEARTS) = upper ''10h''
   \<and> valid_token ''ts'' \<and> parse_card ''ts'' = Inr (Card 10 SPADES)
   \<and> short_name (Card 10 SPADES) = ''10S''"
proof -
  have v1: "valid_token ''10h''" and v2: "valid_token ''ts''" by code_simp+
  have p1: "parse_card ''10h'' = Inr (Card 10 HEARTS)"
    and p2: "parse_card ''ts'' = Inr (Card 10 SPADES)" by code_simp+
  have u1: "upper ''10h'' = ''10H''" and u2: "upper ''ts'' = ''TS''" by code_simp+
  show ?thesis
    using token_round_trip [OF v1] token_round_trip [OF v2] v1 v2
    by (simp add: p1 p2 u1 u2)
qed

section \<open>Properties of the classifier and the score calculator\<close>

subsection \<open>Counters and guarded indices\<close>

lemma sort_key_Nil_iff: "sort_key f xs = [] \<longleftrightarrow> xs = []"
  by (cases xs) simp_all

lemma sort_key_nonempty: "xs \<noteq> [] \<Longrightarrow> sort_key f xs \<noteq> []"
  by (simp add: sort_key_Nil_iff)

lemma fst_counter_incr: "fst ` set (counter_incr k d) = insert k (fst ` set d)"
proof (induction d)
  case Nil
  show ?case by simp
next
  case (Cons p d)
  obtain k' n where p: "p = (k', n)" by (cases p)
  show ?case
    using Cons.IH by (cases "k = k'") (auto simp: p)
qed

lemma distinct_counter_incr: "distinct (map fst d) \<Longrightarrow> distinct (map fst (counter_incr k d))"
proof (induction d)
  case Nil
  show ?case by simp
next
  case (Cons p d)
  obtain k' n where p: "p = (k', n)" by (cases p)
  show ?case
    using Cons fst_counter_incr [of k d] by (cases "k = k'") (auto simp: p)
qed

lemma foldl_counter_keys:
  "distinct (map fst d0) \<Longrightarrow>
     distinct (map fst (foldl (\<lambda>d k. counter_incr k d) d0 xs))
     \<and> fst ` set (foldl (\<lambda>d k. counter_incr k d) d0 xs) = fst ` set d0 \<union> set xs"
proof (induction xs arbitrary: d0)
  case Nil
  then show ?case by simp
next
  case (Cons x xs)
  have "distinct (map fst (counter_incr x d0))"
    using Cons.prems by (rule distinct_counter_incr)
  from Cons.IH [OF this] show ?case
    by (simp add: fst_counter_incr)
qed

lemma Counter_keys: "distinct (map fst (Counter xs)) \<and> fst ` set (Counter xs) = set xs"
  using foldl_counter_keys [of "[]" xs] by (simp add: Counter_def)

lemma Counter_nonempty: "xs \<noteq> [] \<Longrightarrow> Counter xs \<noteq> []"
  using Counter_keys [of xs] by auto

lemma hd_rev_sort_mem: "xs \<noteq> [] \<Longrightarrow> hd (rev (sort xs)) \<in> set xs"
proof -
  assume "xs \<noteq> []"
  then have "sort xs \<noteq> []" by (simp add: sort_key_Nil_iff)
  then have "hd (rev (sort xs)) = last (sort xs)" by (simp add: hd_rev)
  moreover have "last (sort xs) \<in> set (sort xs)" using \<open>sort xs \<noteq> []\<close> by (rule last_in_set)
  ultimately show ?thesis by simp
qed

text \<open>The indices \<^verbatim>\<open>[0]\<close> that the classifier takes under a guard are within range.\<close>

lemma ranks_with_nonempty:
  assumes "rank_counts \<noteq> []" and "hd (rev (sort (map snd rank_counts))) \<ge> k"
  shows "ranks_with k rank_counts \<noteq> []"
proof -
  have "hd (rev (sort (map snd rank_counts))) \<in> set (map snd rank_counts)"
    using assms(1) by (intro hd_rev_sort_mem) simp
  then obtain p where "p \<in> set rank_counts" "snd p \<ge> k"
    using assms(2) by auto
  then have "p \<in> set (filter (\<lambda>rc. snd rc \<ge> k) rank_counts)" by simp
  then show ?thesis
    by (auto simp: ranks_with_def filter_empty_conv)
qed

lemma length_filter_rev_sort:
  "length (filter P (rev (sort xs))) = length (filter P xs)"
proof -
  have "length (filter P (rev (sort xs))) = length (filter P (sort xs))"
    by (simp add: rev_filter [symmetric])
  also have "\<dots> = length (sort (filter P xs))"
    by (simp add: filter_sort)
  finally show ?thesis by simp
qed

lemma full_house_ranks_nonempty:
  assumes d: "distinct (map fst rank_counts)"
    and l: "length (rev (sort (map snd rank_counts))) \<ge> 2"
    and a: "rev (sort (map snd rank_counts)) ! 0 \<ge> 3"
    and b: "rev (sort (map snd rank_counts)) ! 1 \<ge> 2"
  shows "ranks_with 3 rank_counts \<noteq> []
       \<and> filter (\<lambda>r. r \<noteq> hd (ranks_with 3 rank_counts)) (ranks_with 2 rank_counts) \<noteq> []"
proof -
  let ?sc = "rev (sort (map snd rank_counts))"
  have ne: "rank_counts \<noteq> []" using l by auto
  obtain x y rest where sc: "?sc = x # y # rest"
    using l by (cases ?sc; cases "tl ?sc") auto
  have three: "ranks_with 3 rank_counts \<noteq> []"
    using ne a by (intro ranks_with_nonempty) (simp_all add: hd_conv_nth sc)
  have "length (filter (\<lambda>c. c \<ge> 2) ?sc) \<ge> 2"
    using a b by (simp add: sc)
  then have "length (filter (\<lambda>c. c \<ge> 2) (map snd rank_counts)) \<ge> 2"
    by (simp only: length_filter_rev_sort)
  then have len2: "length (ranks_with 2 rank_counts) \<ge> 2"
    by (simp add: ranks_with_def filter_map comp_def)
  have "distinct (ranks_with 2 rank_counts)"
    using d by (simp add: ranks_with_def distinct_map_filter)
  then obtain r1 r2 rs where rw: "ranks_with 2 rank_counts = r1 # r2 # rs" "r1 \<noteq> r2"
    using len2 by (cases "ranks_with 2 rank_counts"; cases "tl (ranks_with 2 rank_counts)") auto
  have "filter (\<lambda>r. r \<noteq> hd (ranks_with 3 rank_counts)) (ranks_with 2 rank_counts) \<noteq> []"
    using rw by (cases "r1 = hd (ranks_with 3 rank_counts)") auto
  with three show ?thesis by simp
qed

subsection \<open>Classification and scoring of concrete hands\<close>

text \<open>
  Claim C1. The claim says that a Stone card adds to neither the rank counts nor the suit
  counts. The classifier leaves Stone cards out of the suit list, but it counts the rank of
  every card: a Stone 5 and a plain 5 are classified as a Pair made of both cards, with the
  rank 5 counted twice, where the plain 5 alone is a High Card.
\<close>

theorem stone_counts_as_rank:
  "get_hand_type [(Card 5 HEARTS)\<lparr>enhancement := STONE\<rparr>, Card 5 DIAMONDS]
     = (PAIR, [(Card 5 HEARTS)\<lparr>enhancement := STONE\<rparr>, Card 5 DIAMONDS])
   \<and> Counter (map rank [(Card 5 HEARTS)\<lparr>enhancement := STONE\<rparr>, Card 5 DIAMONDS]) = [(5, 2)]
   \<and> suits_of [(Card 5 HEARTS)\<lparr>enhancement := STONE\<rparr>, Card 5 DIAMONDS] = [Some DIAMONDS]
   \<and> get_hand_type [Card 5 DIAMONDS] = (HIGH_CARD, [Card 5 DIAMONDS])"
  by code_simp

lemma calculate_score_no_jokers_cong:
  "jokers gs = [] \<Longrightarrow> jokers gs' = [] \<Longrightarrow> \<forall>ht. get_hand_level gs ht = get_hand_level gs' ht
   \<Longrightarrow> calculate_score cs gs = calculate_score cs gs'"
  by (simp add: calculate_score_def)

lemma scenario_best_play_ref:
  "find_best_play (GameState\<lparr>hand := scenario_hand\<rparr>) =
     Some \<lparr>action_type = PLAY,
           cards = [Card 14 SPADES, Card 14 HEARTS, Card 13 SPADES, Card 13 HEARTS],
           expected_score = 124, act_hand_type = Some TWO_PAIR,
           reasoning = ChipsTimesMult 62 2\<rparr>"
  by code_simp

text \<open>
  Claim C5. In every state whose hand is the scenario hand, with no entities and every
  hand level at 1, \<open>find_best_play\<close> returns the Two Pair of the two aces and the two
  kings, with chips 20 + 11 + 11 + 10 + 10 = 62, mult 2 and expected score 124.
\<close>

theorem scenario_two_pair:
  assumes "hand gs = scenario_hand" and "jokers gs = []" and "\<forall>ht. get_hand_level gs ht = 1"
  shows "find_best_play gs =
           Some \<lparr>action_type = PLAY,
                 cards = [Card 14 SPADES, Card 14 HEARTS, Card 13 SPADES, Card 13 HEARTS],
                 expected_score = 124, act_hand_type = Some TWO_PAIR,
                 reasoning = ChipsTimesMult 62 2\<rparr>
         \<and> calculate_score [Card 14 SPADES, Card 14 HEARTS, Card 13 SPADES, Card 13 HEARTS] gs
             = (124, TWO_PAIR, 62, 2)
         \<and> base_chips TWO_PAIR + chip_value (Card 14 SPADES) + chip_value (Card 14 HEARTS)
             + chip_value (Card 13 SPADES) + chip_value (Card 13 HEARTS) = 62
         \<and> base_chips TWO_PAIR = 20 \<and> chip_value (Card 14 SPADES) = 11
         \<and> chip_value (Card 14 HEARTS) = 11 \<and> chip_value (Card 13 SPADES) = 10
         \<and> chip_value (Card 13 HEARTS) = 10 \<and> base_mult TWO_PAIR = 2"
proof -
  let ?ref = "GameState\<lparr>hand := scenario_hand\<rparr>"
  have lv: "\<forall>ht. get_hand_level gs ht = get_hand_level ?ref ht"
    using assms(3) by (simp add: get_hand_level_def GameState_def)
  have sc: "calculate_score cs gs = calculate_score cs ?ref" for cs
    by (rule calculate_score_no_jokers_cong) (use assms(2) lv in \<open>simp_all add: GameState_def\<close>)
  have "play_action gs = play_action ?ref"
    by (rule ext) (simp add: play_action_def sc)
  then have "find_best_play gs = find_best_play ?ref"
    using assms(1) by (simp add: find_best_play_def)
  moreover have "calculate_score [Card 14 SPADES, Card 14 HEARTS, Card 13 SPADES, Card 13 HEARTS] ?ref
      = (124, TWO_PAIR, 62, 2)"
    by code_simp
  moreover have "chip_value (Card 14 SPADES) = 11" "chip_value (Card 14 HEARTS) = 11"
     "chip_value (Card 13 SPADES) = 10" "chip_value (Card 13 HEARTS) = 10"
    by (simp_all add: chip_value_def Card_def)
  ultimately show ?thesis
    by (simp add: scenario_best_play_ref sc)
qed

theorem scenario_two_pair_witness:
  "hand (GameState\<lparr>hand := scenario_hand, hands_remaining := 2\<rparr>) = scenario_hand
   \<and> jokers (GameState\<lparr>hand := scenario_hand, hands_remaining := 2\<rparr>) = []
   \<and> (\<forall>ht. get_hand_level (GameState\<lparr>hand := scenario_hand, hands_remaining := 2\<rparr>) ht = 1)
   \<and> map_option expected_score
        (find_best_play (GameState\<lparr>hand := scenario_hand, hands_remaining := 2\<rparr>)) = Some 124"
proof -
  let ?gs = "GameState\<lparr>hand := scenario_hand, hands_remaining := 2\<rparr>"
  have a: "hand ?gs = scenario_hand" and b: "jokers ?gs = []"
    and c: "\<forall>ht. get_hand_level ?gs ht = 1"
    by (simp_all add: GameState_def get_hand_level_def)
  show ?thesis
    using scenario_two_pair [OF a b c] a b c by simp
qed

subsection \<open>The score as sums and a product\<close>

lemma foldl_card_step:
  "foldl card_step (c, m, x) sc =
     (c + sum_list (map chip_value sc),
      m + sum_list (map (\<lambda>c. (if enhancement c = MULT then 4 else 0)
                              + (if edition c = HOLOGRAPHIC then 10 else 0)) sc),
      x * prod_list (map (\<lambda>c. (if enhancement c = GLASS then 2 else 1)
                             * (if edition c = POLYCHROME then 3 / 2 else 1)) sc))"
  by (induction sc arbitrary: c m x) (simp_all add: card_step_def Let_def)

lemma apply_joker_eq:
  "apply_joker j cs ht sc gs =
     (if joker_applies j cs ht sc gs
      then (flat_chips (effect j), flat_mult (effect j), x_mult (effect j))
      else (0, 0, 1))"
  by (auto simp: apply_joker_def joker_applies_def Let_def split: option.splits)

lemma foldl_joker_step:
  "foldl (joker_step cs ht sc gs) (c, m, x) js =
     (c + sum_list (map (\<lambda>j. (if joker_applies j cs ht sc gs then flat_chips (effect j) else 0)
                              + (if joker_edition j = FOIL then 50 else 0)) js),
      m + sum_list (map (\<lambda>j. (if joker_applies j cs ht sc gs then flat_mult (effect j) else 0)
                              + (if joker_edition j = HOLOGRAPHIC then 10 else 0)) js),
      x * prod_list (map (\<lambda>j. (if joker_applies j cs ht sc gs then x_mult (effect j) else 1)
                               * (if joker_edition j = POLYCHROME then 3 / 2 else 1)) js))"
  by (induction js arbitrary: c m x) (simp_all add: joker_step_def apply_joker_eq Let_def)

lemma calculate_score_components:
  "calculate_score cs gs =
     (py_int (of_int (spec_chips cs gs) * (of_int (spec_mult cs gs) * spec_x_mult cs gs)),
      fst (get_hand_type cs), spec_chips cs gs,
      py_int (of_int (spec_mult cs gs) * spec_x_mult cs gs))"
  by (simp add: calculate_score_def spec_chips_def spec_mult_def spec_x_mult_def Let_def
      foldl_card_step foldl_joker_step split: prod.splits)

lemma base_chips_nonneg: "0 \<le> base_chips ht"
  by (cases ht) simp_all

lemma base_mult_nonneg: "0 \<le> base_mult ht"
  by (cases ht) simp_all

lemma level_bonus_nonneg: "0 \<le> level_bonus ht"
  by (cases ht) simp_all

lemma chip_value_nonneg: "0 \<le> chip_value c"
  by (simp add: chip_value_def Let_def)

lemma prod_list_nonneg_rat: "(\<And>x. x \<in> set xs \<Longrightarrow> (0::rat) \<le> x) \<Longrightarrow> 0 \<le> prod_list xs"
  by (induction xs) simp_all

lemma level_chips_nonneg: "1 \<le> l \<Longrightarrow> 0 \<le> level_chips ht l"
  by (simp add: level_chips_def base_chips_nonneg level_bonus_nonneg)

lemma level_mult_nonneg: "1 \<le> l \<Longrightarrow> 0 \<le> level_mult ht l"
  using base_mult_nonneg [of ht] by (simp add: level_mult_def)

lemma spec_chips_nonneg:
  assumes "nonneg_state gs"
  shows "0 \<le> spec_chips cs gs"
proof -
  obtain ht sc where g: "get_hand_type cs = (ht, sc)" by (cases "get_hand_type cs")
  have "1 \<le> get_hand_level gs ht"
    using assms by (simp add: nonneg_state_def)
  then have "0 \<le> level_chips ht (get_hand_level gs ht)"
    by (rule level_chips_nonneg)
  moreover have "0 \<le> sum_list (map chip_value sc)"
    by (rule sum_list_nonneg) (auto simp: chip_value_nonneg)
  moreover have "0 \<le> sum_list (map (\<lambda>j. (if joker_applies j cs ht sc gs
                               then flat_chips (effect j) else 0)
                              + (if joker_edition j = FOIL then 50 else 0)) (jokers gs))"
    using assms by (intro sum_list_nonneg) (auto simp: nonneg_state_def)
  ultimately show ?thesis
    by (simp add: spec_chips_def g)
qed

lemma spec_mult_nonneg:
  assumes "nonneg_state gs"
  shows "0 \<le> spec_mult cs gs"
proof -
  obtain ht sc where g: "get_hand_type cs = (ht, sc)" by (cases "get_hand_type cs")
  have "1 \<le> get_hand_level gs ht"
    using assms by (simp add: nonneg_state_def)
  then have "0 \<le> level_mult ht (get_hand_level gs ht)"
    by (rule level_mult_nonneg)
  moreover have "0 \<le> sum_list (map (\<lambda>c. (if enhancement c = MULT then 4 else 0)
                              + (if edition c = HOLOGRAPHIC then 10 else (0::int))) sc)"
    by (rule sum_list_nonneg) auto
  moreover have "0 \<le> sum_list (map (\<lambda>j. (if joker_applies j cs ht sc gs
                               then flat_mult (effect j) else 0)
                              + (if joker_edition j = HOLOGRAPHIC then 10 else 0)) (jokers gs))"
    using assms by (intro sum_list_nonneg) (auto simp: nonneg_state_def)
  ultimately show ?thesis
    by (simp add: spec_mult_def g)
qed

lemma spec_x_mult_nonneg: "nonneg_state gs \<Longrightarrow> 0 \<le> spec_x_mult cs gs"
  unfolding spec_x_mult_def nonneg_state_def
  by (auto split: prod.splits intro!: mult_nonneg_nonneg prod_list_nonneg_rat)

lemma calculate_score_nonneg: "nonneg_state gs \<Longrightarrow> 0 \<le> fst (calculate_score cs gs)"
  by (simp add: calculate_score_components py_int_def spec_chips_nonneg spec_mult_nonneg
      spec_x_mult_nonneg)



section \<open>Properties of the optimizer\<close>

subsection \<open>Best play and sorted plays\<close>

lemma expected_score_play_action: "expected_score (play_action gs c) = fst (calculate_score c gs)"
  by (simp add: play_action_def split: prod.splits)

lemma action_type_play_action: "action_type (play_action gs c) = PLAY"
  by (simp add: play_action_def split: prod.splits)

lemma candidate_combos_nonempty: "xs \<noteq> [] \<Longrightarrow> candidate_combos xs \<noteq> []"
proof (cases xs)
  case Nil
  then show "xs \<noteq> [] \<Longrightarrow> ?thesis" by simp
next
  case (Cons x xs')
  have "[1 ..< min 6 (length xs + 1)] = 1 # [2 ..< min 6 (length xs + 1)]"
    using Cons by (simp add: upt_rec)
  moreover have "combinations 1 xs \<noteq> []"
    using Cons by simp
  ultimately show ?thesis
    by (simp add: candidate_combos_def)
qed

lemma hd_insort_key:
  "hd (insort_key f x ys) = (if ys = [] \<or> f x \<le> f (hd ys) then x else hd ys)"
  by (cases ys) auto

lemma hd_sort_key_least:
  assumes "y \<in> set xs"
  shows "f (hd (sort_key f xs)) \<le> f y"
proof -
  have s: "sorted (map f (sort_key f xs))" by simp
  have ne: "sort_key f xs \<noteq> []" using assms by (auto simp: sort_key_Nil_iff)
  have "y \<in> set (sort_key f xs)" using assms by simp
  then show ?thesis
    using s ne by (cases "sort_key f xs") auto
qed

lemma foldl_best_step:
  "foldl best_step (b, r) xs =
     (if \<exists>x \<in> set xs. expected_score x > b
      then (expected_score (hd (sort_key (\<lambda>a. - expected_score a) xs)),
            Some (hd (sort_key (\<lambda>a. - expected_score a) xs)))
      else (b, r))"
proof (induction xs arbitrary: b r)
  case Nil
  then show ?case by simp
next
  case (Cons x xs)
  let ?f = "\<lambda>a. - expected_score a"
  let ?S = "sort_key ?f xs"
  have top: "expected_score y \<le> expected_score (hd ?S)" if "y \<in> set xs" for y
    using hd_sort_key_least [OF that, of ?f] by simp
  have mem: "hd ?S \<in> set xs" if "xs \<noteq> []"
  proof -
    have "?S \<noteq> []" using that by (rule sort_key_nonempty)
    then have "hd ?S \<in> set ?S" by (rule hd_in_set)
    then show ?thesis by simp
  qed
  have hd_eq: "hd (sort_key ?f (x # xs)) =
      (if xs = [] \<or> expected_score (hd ?S) \<le> expected_score x then x else hd ?S)"
    by (simp add: hd_insort_key sort_key_Nil_iff)
  show ?case
  proof (cases "expected_score x > b")
    case True
    then have step: "best_step (b, r) x = (expected_score x, Some x)"
      by (simp add: best_step_def)
    show ?thesis
    proof (cases "\<exists>y \<in> set xs. expected_score y > expected_score x")
      case ex: True
      then have "xs \<noteq> []" by auto
      moreover have "expected_score (hd ?S) > expected_score x"
        using ex top by force
      ultimately show ?thesis
        using True ex by (simp add: step Cons.IH hd_eq del: sort_key_simps)
    next
      case nex: False
      have "xs = [] \<or> expected_score (hd ?S) \<le> expected_score x"
        using nex mem by (cases "xs = []") auto
      then show ?thesis
        using True nex by (auto simp add: step Cons.IH hd_eq simp del: sort_key_simps)
    qed
  next
    case False
    then have step: "best_step (b, r) x = (b, r)"
      by (simp add: best_step_def)
    show ?thesis
    proof (cases "\<exists>y \<in> set xs. expected_score y > b")
      case ex: True
      then have "xs \<noteq> []" by auto
      moreover have "expected_score (hd ?S) > expected_score x"
        using ex top False by force
      ultimately show ?thesis
        using False ex by (simp add: step Cons.IH hd_eq del: sort_key_simps)
    next
      case nex: False
      then show ?thesis
        using False by (simp add: step Cons.IH del: sort_key_simps)
    qed
  qed
qed

lemma find_best_play_nonempty:
  assumes "hand gs \<noteq> []"
  shows "find_best_play gs =
     (if \<exists>a \<in> set (map (play_action gs) (candidate_combos (hand gs))). expected_score a > - 1
      then Some (hd (sort_key (\<lambda>a. - expected_score a)
                      (map (play_action gs) (candidate_combos (hand gs)))))
      else None)"
  using assms by (simp add: find_best_play_def foldl_best_step del: sort_key_simps)

lemma take_1_hd: "xs \<noteq> [] \<Longrightarrow> take (Suc 0) xs = [hd xs]"
  by (cases xs) simp_all

lemma find_all_plays_1:
  assumes "hand gs \<noteq> []"
  shows "find_all_plays gs 1 =
     [hd (sort_key (\<lambda>a. - expected_score a) (map (play_action gs) (candidate_combos (hand gs))))]"
proof -
  have "map (play_action gs) (candidate_combos (hand gs)) \<noteq> []"
    using assms by (simp add: candidate_combos_nonempty)
  then have "sort_key (\<lambda>a. - expected_score a) (map (play_action gs) (candidate_combos (hand gs))) \<noteq> []"
    by (rule sort_key_nonempty)
  then show ?thesis
    by (simp add: find_all_plays_def py_take_def take_1_hd del: sort_key_simps)
qed

text \<open>The positions of the best play are the positions of its cards.\<close>

lemma combinations_map: "combinations k (map f xs) = map (map f) (combinations k xs)"
  by (induction k xs rule: combinations.induct) simp_all

lemma candidate_combos_map: "candidate_combos (map f xs) = map (map f) (candidate_combos xs)"
  by (simp add: candidate_combos_def combinations_map map_concat comp_def)

lemma candidate_combos_positions:
  "candidate_combos xs = map (map (\<lambda>i. xs ! i)) (candidate_combos [0 ..< length xs])"
proof -
  have "xs = map (\<lambda>i. xs ! i) [0 ..< length xs]"
    by (simp add: map_nth)
  then have "candidate_combos xs = candidate_combos (map (\<lambda>i. xs ! i) [0 ..< length xs])"
    by simp
  then show ?thesis
    by (simp only: candidate_combos_map)
qed

lemma cards_play_action: "cards (play_action gs c) = c"
  by (simp add: play_action_def split: prod.splits)

lemma foldl_position_step:
  "r = None \<or> r = Some (play_action gs (map (\<lambda>i. hand gs ! i) ps)) \<Longrightarrow>
   foldl best_step (b, r) (map (play_action gs) (map (map (\<lambda>i. hand gs ! i)) pcs)) = (b', r') \<Longrightarrow>
   foldl (position_step gs) (b, ps) pcs = (b'', ps') \<Longrightarrow>
   b'' = b' \<and> (r' = None \<or> r' = Some (play_action gs (map (\<lambda>i. hand gs ! i) ps')))"
proof (induction pcs arbitrary: b r ps)
  case Nil
  then show ?case by auto
next
  case (Cons pc pcs)
  let ?a = "play_action gs (map (\<lambda>i. hand gs ! i) pc)"
  show ?case
  proof (cases "expected_score ?a > b")
    case True
    then have "best_step (b, r) ?a = (expected_score ?a, Some ?a)"
      and "position_step gs (b, ps) pc = (expected_score ?a, pc)"
      by (simp_all add: best_step_def position_step_def Let_def)
    then show ?thesis
      using Cons.prems(2,3) Cons.IH [of "Some ?a" pc "expected_score ?a"] by simp
  next
    case False
    then have "best_step (b, r) ?a = (b, r)"
      and "position_step gs (b, ps) pc = (b, ps)"
      by (simp_all add: best_step_def position_step_def Let_def)
    then show ?thesis
      using Cons.prems Cons.IH [of r ps b] by simp
  qed
qed

lemma best_play_positions_cards:
  assumes "hand gs \<noteq> []" and "find_best_play gs = Some a"
  shows "cards a = map (\<lambda>i. hand gs ! i) (best_play_positions gs)"
proof -
  let ?f = "\<lambda>i. hand gs ! i"
  let ?pcs = "candidate_combos [0 ..< length (hand gs)]"
  obtain b' r' where l: "foldl best_step (- 1, None) (map (play_action gs) (map (map ?f) ?pcs)) = (b', r')"
    by (cases "foldl best_step (- 1, None) (map (play_action gs) (map (map ?f) ?pcs))")
  obtain b'' ps' where p: "foldl (position_step gs) (- 1, []) ?pcs = (b'', ps')"
    by (cases "foldl (position_step gs) (- 1, []) ?pcs")
  have "r' = None \<or> r' = Some (play_action gs (map ?f ps'))"
    using foldl_position_step [OF _ l p] by simp
  moreover have "find_best_play gs = r'"
    using assms(1) l candidate_combos_positions [of "hand gs"] by (simp add: find_best_play_def)
  moreover have "best_play_positions gs = ps'"
    using p by (simp add: best_play_positions_def)
  ultimately show ?thesis
    using assms(2) by (auto simp: cards_play_action)
qed

lemma sorted_py_take: "sorted (map f xs) \<Longrightarrow> sorted (map f (py_take n xs))"
  by (auto simp: py_take_def simp flip: take_map intro: sorted_wrt_take)

lemma py_take_all: "n \<ge> int (length xs) \<Longrightarrow> py_take n xs = xs"
  by (simp add: py_take_def)

text \<open>
  Claim C6, amended. \<open>find_best_play\<close> and \<open>find_all_plays\<close> run over the same list of
  plays, one per combination of 1 to min(5, hand size) cards in the order of
  \<open>candidate_combos\<close>. Every result of \<open>find_all_plays\<close> is in descending order of score;
  it is a prefix (Python's slice) of the full sorted list, in which the plays of each score
  keep their enumeration order. For a non-empty hand, whenever \<open>find_best_play\<close> returns
  an action, \<open>find_all_plays gs 1\<close> is the list of that one action; and it returns an
  action whenever the hand levels are at least 1 and the entities add and multiply by
  non-negative amounts.
\<close>

theorem find_all_plays_head:
  assumes "hand gs \<noteq> []"
  shows "(\<forall>a. find_best_play gs = Some a \<longrightarrow> find_all_plays gs 1 = [a])
    \<and> (nonneg_state gs \<longrightarrow> (\<exists>a. find_best_play gs = Some a))
    \<and> find_best_play gs
        = snd (foldl best_step (- 1, None) (map (play_action gs) (candidate_combos (hand gs))))
    \<and> candidate_combos (hand gs)
        = concat (map (\<lambda>k. combinations k (hand gs)) [1 ..< Suc (min 5 (length (hand gs)))])
    \<and> (\<forall>n. sorted (map (\<lambda>a. - expected_score a) (find_all_plays gs n)))
    \<and> (\<forall>n. find_all_plays gs n
          = py_take n (find_all_plays gs (int (length (candidate_combos (hand gs))))))
    \<and> (\<forall>k. filter (\<lambda>a. expected_score a = k)
               (find_all_plays gs (int (length (candidate_combos (hand gs)))))
          = filter (\<lambda>a. expected_score a = k)
               (map (play_action gs) (candidate_combos (hand gs))))"
proof -
  let ?plays = "map (play_action gs) (candidate_combos (hand gs))"
  let ?f = "\<lambda>a. - expected_score a"
  have full: "find_all_plays gs (int (length (candidate_combos (hand gs)))) = sort_key ?f ?plays"
    by (simp add: find_all_plays_def py_take_def del: sort_key_simps)
  have ne: "?plays \<noteq> []"
    using assms by (simp add: candidate_combos_nonempty)
  have 1: "\<forall>a. find_best_play gs = Some a \<longrightarrow> find_all_plays gs 1 = [a]"
    using assms by (auto simp add: find_best_play_nonempty find_all_plays_1 split: if_splits simp del: sort_key_simps)
  have 2: "nonneg_state gs \<longrightarrow> (\<exists>a. find_best_play gs = Some a)"
  proof
    assume n: "nonneg_state gs"
    obtain a where a: "a \<in> set ?plays" using ne by (cases ?plays) auto
    then obtain c where "a = play_action gs c" by auto
    then have "expected_score a > - 1"
      using calculate_score_nonneg [OF n, of c] by (simp add: expected_score_play_action)
    with a have "\<exists>a \<in> set ?plays. expected_score a > - 1" by blast
    then show "\<exists>a. find_best_play gs = Some a"
      using assms by (simp add: find_best_play_nonempty del: sort_key_simps)
  qed
  have 3: "find_best_play gs = snd (foldl best_step (- 1, None) ?plays)"
    using assms by (simp add: find_best_play_def)
  have 4: "candidate_combos (hand gs)
        = concat (map (\<lambda>k. combinations k (hand gs)) [1 ..< Suc (min 5 (length (hand gs)))])"
  proof -
    have "min 6 (length (hand gs) + 1) = Suc (min 5 (length (hand gs)))"
      by (simp add: min_def)
    then show ?thesis
      by (simp only: candidate_combos_def)
  qed
  have 5: "\<forall>n. sorted (map ?f (find_all_plays gs n))"
    by (simp add: find_all_plays_def sorted_py_take del: sort_key_simps)
  have 6: "\<forall>n. find_all_plays gs n
          = py_take n (find_all_plays gs (int (length (candidate_combos (hand gs)))))"
    by (simp add: full) (simp add: find_all_plays_def)
  have 7: "\<forall>k. filter (\<lambda>a. expected_score a = k)
               (find_all_plays gs (int (length (candidate_combos (hand gs)))))
          = filter (\<lambda>a. expected_score a = k) ?plays"
  proof
    fix k
    have "filter (\<lambda>a. ?f a = - k) (sort_key ?f ?plays) = filter (\<lambda>a. ?f a = - k) ?plays"
      by (rule sort_key_stable)
    then show "filter (\<lambda>a. expected_score a = k)
               (find_all_plays gs (int (length (candidate_combos (hand gs)))))
          = filter (\<lambda>a. expected_score a = k) ?plays"
      by (simp add: full del: sort_key_simps)
  qed
  show ?thesis using 1 2 3 4 5 6 7 by blast
qed

text \<open>
  With an empty hand \<open>find_all_plays\<close> returns the empty list while \<open>find_best_play\<close>
  returns its placeholder action: claim C6 as stated fails there.
\<close>

theorem empty_hand_counterexample:
  "\<not> (\<exists>a. find_all_plays GameState 1 = [a] \<and> find_best_play GameState = Some a)"
proof -
  have "find_all_plays GameState 1 = []" by code_simp
  then show ?thesis by simp
qed


theorem find_all_plays_head_witness:
  "hand (GameState\<lparr>hand := scenario_hand\<rparr>) \<noteq> []
   \<and> nonneg_state (GameState\<lparr>hand := scenario_hand\<rparr>)
   \<and> find_best_play (GameState\<lparr>hand := scenario_hand\<rparr>) =
       Some \<lparr>action_type = PLAY,
             cards = [Card 14 SPADES, Card 14 HEARTS, Card 13 SPADES, Card 13 HEARTS],
             expected_score = 124, act_hand_type = Some TWO_PAIR,
             reasoning = ChipsTimesMult 62 2\<rparr>
   \<and> find_all_plays (GameState\<lparr>hand := scenario_hand\<rparr>) 1 =
       [\<lparr>action_type = PLAY,
         cards = [Card 14 SPADES, Card 14 HEARTS, Card 13 SPADES, Card 13 HEARTS],
         expected_score = 124, act_hand_type = Some TWO_PAIR,
         reasoning = ChipsTimesMult 62 2\<rparr>]"
proof -
  let ?gs = "GameState\<lparr>hand := scenario_hand\<rparr>"
  have ne: "hand ?gs \<noteq> []"
    by (simp add: scenario_hand_def)
  have n: "nonneg_state ?gs"
    by (simp add: nonneg_state_def GameState_def get_hand_level_def)
  have "\<forall>a. find_best_play ?gs = Some a \<longrightarrow> find_all_plays ?gs 1 = [a]"
    using find_all_plays_head [OF ne] by (rule conjunct1)
  then show ?thesis
    using ne n by (simp add: scenario_best_play_ref)
qed

text \<open>
  Claim C4. The claim says that the estimator completes normally whichever entities are
  held. Its loop over the held entities reads \<^verbatim>\<open>joker.trigger_type\<close>, which no entity has:
  with one catalogue entity held the estimate for a flush draw raises AttributeError, where
  the same call without entities returns (35 + 2 + 5 + 9 + 10) * 4 = 244.
\<close>

theorem estimate_raises_with_joker:
  "estimate_hand_score (GameState\<lparr>jokers := [create_joker ''Joker'' EdNONE]\<rparr>) FLUSH
      (Some [Card 2 HEARTS, Card 5 HEARTS, Card 9 HEARTS, Card 13 HEARTS]) = Inl AttributeError
   \<and> estimate_hand_score GameState FLUSH
      (Some [Card 2 HEARTS, Card 5 HEARTS, Card 9 HEARTS, Card 13 HEARTS]) = Inr 244"
  by code_simp

subsection \<open>The multi-turn strategy\<close>

lemma foldl_best_step_PLAY:
  "(\<forall>a. r = Some a \<longrightarrow> action_type a = PLAY) \<Longrightarrow> \<forall>x \<in> set xs. action_type x = PLAY \<Longrightarrow>
   snd (foldl best_step (b, r) xs) = Some a \<Longrightarrow> action_type a = PLAY"
  by (induction xs arbitrary: b r) (auto simp: best_step_def split: if_splits)

lemma find_best_play_PLAY: "find_best_play gs = Some a \<Longrightarrow> action_type a = PLAY"
proof (cases "hand gs = []")
  case True
  then show "find_best_play gs = Some a \<Longrightarrow> ?thesis"
    by (auto simp: find_best_play_def)
next
  case False
  assume "find_best_play gs = Some a"
  then have "snd (foldl best_step (- 1, None) (map (play_action gs) (candidate_combos (hand gs)))) = Some a"
    using False by (simp add: find_best_play_def)
  then show ?thesis
    by (rule foldl_best_step_PLAY [rotated 2]) (auto simp: action_type_play_action)
qed

lemma analyze_discards_DISCARD: "analyze_discards gs hc cand = Inr a \<Longrightarrow> action_type a = DISCARD"
  by (auto simp: analyze_discards_def ebind_def Let_def split: sum.splits list.splits if_splits)

lemma find_best_discard_DISCARD: "find_best_discard gs = Inr a \<Longrightarrow> action_type a = DISCARD"
  by (auto simp: find_best_discard_def Let_def analyze_discards_DISCARD
      split: if_splits option.splits)

text \<open>Without entities the discard analysis and the loop return.\<close>

lemma isl_ebind: "isl (ebind m f) \<longleftrightarrow> isl m \<or> isl (f (projr m))"
  by (cases m) (simp_all add: ebind_def)

lemma emap_ok: "(\<And>x. x \<in> set xs \<Longrightarrow> \<not> isl (f x)) \<Longrightarrow> \<not> isl (emap f xs)"
  by (induction xs) (simp_all add: isl_ebind)

lemma estimate_hand_score_ok: "jokers gs = [] \<Longrightarrow> \<not> isl (estimate_hand_score gs ht sc)"
  by (simp add: estimate_hand_score_def Let_def isl_ebind)

lemma draw_probability_ok:
  "\<not> (needed < 0 \<and> favorable = 0) \<Longrightarrow> \<not> isl (calculate_draw_probability needed favorable 44)"
  by (auto simp: calculate_draw_probability_def py_div_def py_pow_def isl_ebind)

lemma sum_counter_incr: "sum_list (map snd (counter_incr k d)) = Suc (sum_list (map snd d))"
  by (induction d) auto

lemma sum_foldl_counter:
  "sum_list (map snd (foldl (\<lambda>d k. counter_incr k d) d0 xs)) = sum_list (map snd d0) + length xs"
  by (induction xs arbitrary: d0) (simp_all add: sum_counter_incr)

lemma Counter_le_length: "(k, n) \<in> set (Counter xs) \<Longrightarrow> n \<le> length xs"
proof -
  assume "(k, n) \<in> set (Counter xs)"
  then have "n \<in> set (map snd (Counter xs))" by force
  then have "n \<le> sum_list (map snd (Counter xs))" by (intro member_le_sum_list) simp_all
  then show ?thesis by (simp add: Counter_def sum_foldl_counter)
qed

lemma flush_potential_ok:
  assumes "jokers gs = []" and "snd sc < 13"
  shows "\<not> isl (flush_potential gs sc)"
proof (cases sc)
  case (Pair s count)
  have "\<not> isl (calculate_draw_probability (5 - int count) (13 - int count) 44)"
    using assms(2) Pair by (intro draw_probability_ok) simp
  then show ?thesis
    using Pair assms(1)
    by (simp add: flush_potential_def Let_def isl_ebind estimate_hand_score_ok)
qed


lemma straight4_loop_ok: "jokers gs = [] \<Longrightarrow> \<not> isl (straight4_loop gs hc sr is)"
  by (induction "is")
     (simp_all add: Let_def isl_ebind estimate_hand_score_ok draw_probability_ok)

lemma straight3_loop_ok: "jokers gs = [] \<Longrightarrow> \<not> isl (straight3_loop gs hc sr is)"
  by (induction "is")
     (simp_all add: Let_def isl_ebind estimate_hand_score_ok draw_probability_ok)

lemma find_straight_potential_ok: "jokers gs = [] \<Longrightarrow> \<not> isl (find_straight_potential gs hc sr)"
  by (simp add: find_straight_potential_def isl_ebind straight4_loop_ok straight3_loop_ok
      split: option.splits)

lemma four_kind_potential_ok: "jokers gs = [] \<Longrightarrow> \<not> isl (four_kind_potential gs rc)"
  by (simp add: four_kind_potential_def Let_def isl_ebind estimate_hand_score_ok
      draw_probability_ok split: prod.splits)

lemma three_kind_potential_ok: "jokers gs = [] \<Longrightarrow> \<not> isl (three_kind_potential gs rc)"
  by (simp add: three_kind_potential_def Let_def isl_ebind estimate_hand_score_ok
      draw_probability_ok split: prod.splits)

lemma full_house_potential_ok: "jokers gs = [] \<Longrightarrow> \<not> isl (full_house_potential gs rcs)"
  by (simp add: full_house_potential_def Let_def isl_ebind estimate_hand_score_ok
      draw_probability_ok)

lemma analyze_potential_hands_ok:
  assumes "jokers gs = []" and "length (hand gs) < 13"
  shows "\<not> isl (analyze_potential_hands gs)"
proof -
  have fl: "\<not> isl (flush_potential gs sc)" if "sc \<in> set (Counter (map suit (hand gs)))" for sc
  proof -
    have "snd sc \<le> length (map suit (hand gs))"
      using that by (intro Counter_le_length [of "fst sc"]) simp
    then show ?thesis
      using assms by (intro flush_potential_ok) simp_all
  qed
  show ?thesis
    using assms(1)
    by (simp add: analyze_potential_hands_def Let_def isl_ebind emap_ok fl
        find_straight_potential_ok four_kind_potential_ok full_house_potential_ok
        three_kind_potential_ok del: sort_key_simps)
qed

lemma analyze_discards_ok:
  "jokers gs = [] \<Longrightarrow> length (hand gs) < 13 \<Longrightarrow> \<not> isl (analyze_discards gs hc cand)"
  by (simp add: analyze_discards_def isl_ebind analyze_potential_hands_ok Let_def
      split: list.splits del: sort_key_simps)

lemma find_best_discard_ok:
  "jokers gs = [] \<Longrightarrow> length (hand gs) < 13 \<Longrightarrow> find_best_play gs \<noteq> None
   \<Longrightarrow> \<not> isl (find_best_discard gs)"
  by (auto simp: find_best_discard_def Let_def analyze_discards_ok split: option.splits)


lemma find_best_play_returns: "nonneg_state gs \<Longrightarrow> find_best_play gs \<noteq> None"
proof (cases "hand gs = []")
  case True
  then show ?thesis by (simp add: find_best_play_def)
next
  case False
  assume n: "nonneg_state gs"
  let ?plays = "map (play_action gs) (candidate_combos (hand gs))"
  have "?plays \<noteq> []" using False by (simp add: candidate_combos_nonempty)
  then obtain a where a: "a \<in> set ?plays" by (cases ?plays) auto
  then obtain c where "a = play_action gs c" by auto
  then have "expected_score a > - 1"
    using calculate_score_nonneg [OF n, of c] by (simp add: expected_score_play_action)
  with a have "\<exists>a \<in> set ?plays. expected_score a > - 1" by blast
  then show ?thesis
    using False by (simp add: find_best_play_nonempty del: sort_key_simps)
qed

lemma entity_free_nonneg: "entity_free_state gs \<Longrightarrow> nonneg_state gs"
  by (simp add: entity_free_state_def nonneg_state_def)

lemma length_remove_first: "length (remove_first c h) \<le> length h"
  by (induction h) auto

lemma length_remove_cards: "length (remove_cards cs h) \<le> length h"
proof (induction cs arbitrary: h)
  case Nil
  then show ?case by (simp add: remove_cards_def)
next
  case (Cons c cs)
  have "length (remove_cards cs (remove_first c h)) \<le> length (remove_first c h)"
    by (rule Cons.IH)
  also have "\<dots> \<le> length h" by (rule length_remove_first)
  finally show ?case by (simp add: remove_cards_def)
qed

lemma entity_free_update:
  "entity_free_state sim \<Longrightarrow>
     entity_free_state (sim\<lparr>hands_remaining := n, hand := remove_cards cs (hand sim)\<rparr>)
     \<and> entity_free_state (sim\<lparr>discards_remaining := n, hand := remove_cards cs (hand sim)\<rparr>)"
  using length_remove_cards [of cs "hand sim"]
  by (simp add: entity_free_state_def get_hand_level_def)

lemma strategy_loop_returns:
  "entity_free_state sim \<Longrightarrow> \<not> isl (fst (strategy_loop target sim total_score strat))"
proof (induction target sim total_score strat rule: strategy_loop.induct)
  case (1 target sim total_score strat)
  note ef = "1.prems"
  show ?case
  proof (cases "total_score < target \<and> hands_remaining sim > 0")
    case False
    then have "strategy_loop target sim total_score strat = (Inr (total_score, strat), sim)"
      by (subst strategy_loop.simps) auto
    then show ?thesis by simp
  next
    case continue: True
    have "find_best_play sim \<noteq> None"
      using ef by (intro find_best_play_returns entity_free_nonneg)
    then obtain best_play where Some: "find_best_play sim = Some best_play" by auto
    let ?discard = "discards_remaining sim > 0
                \<and> (of_int (estimate_discard_value sim) :: rat) > of_int (expected_score best_play) * (3 / 10)
                \<and> hands_remaining sim > 1"
    let ?play_sim = "sim\<lparr>hands_remaining := hands_remaining sim - 1,
                      hand := remove_cards (cards best_play) (hand sim)\<rparr>"
    let ?play_strat = "strat\<lparr>actions := actions strat @ [best_play],
                        hands_needed := hands_needed strat + 1\<rparr>"
    have ef_play: "entity_free_state ?play_sim"
      using entity_free_update [OF ef] by blast
    show ?thesis
    proof (cases ?discard)
      case False
      have "strategy_loop target sim total_score strat =
                  strategy_loop target ?play_sim (total_score + expected_score best_play) ?play_strat"
        using continue Some False by (subst strategy_loop.simps) auto
      then show ?thesis
        using "1.IH"(3) [OF continue Some _ ef_play] False by auto
    next
      case disc: True
      have "\<not> isl (find_best_discard sim)"
        using ef Some by (intro find_best_discard_ok) (simp_all add: entity_free_state_def)
      then obtain discard_action where Inr: "find_best_discard sim = Inr discard_action"
        by (cases "find_best_discard sim") auto
      show ?thesis
      proof (cases "cards discard_action \<noteq> []")
        case False
        have "strategy_loop target sim total_score strat =
                  strategy_loop target ?play_sim (total_score + expected_score best_play) ?play_strat"
          using continue Some disc Inr False by (subst strategy_loop.simps) simp
        then show ?thesis
          using "1.IH"(2) [OF continue Some disc Inr _ ef_play] False by auto
      next
        case True
        let ?d_sim = "sim\<lparr>discards_remaining := discards_remaining sim - 1,
                             hand := remove_cards (cards discard_action) (hand sim)\<rparr>"
        let ?d_strat = "strat\<lparr>actions := actions strat @ [discard_action],
                               discards_used := discards_used strat + 1,
                               strategy_notes := strategy_notes strat @ [DiscardToImprove]\<rparr>"
        have ef_d: "entity_free_state ?d_sim"
          using entity_free_update [OF ef] by blast
        have "strategy_loop target sim total_score strat =
                  strategy_loop target ?d_sim total_score ?d_strat"
          using continue Some disc Inr True by (subst strategy_loop.simps) simp
        then show ?thesis
          using "1.IH"(1) [OF continue Some disc Inr True ef_d] by simp
      qed
    qed
  qed
qed

lemma strategy_loop_invariant:
  "fst (strategy_loop target sim total_score strat) = Inr (total', strat') \<Longrightarrow>
     \<exists>added. actions strat' = actions strat @ added
       \<and> total' = total_score + sum_list (map expected_score (plays_of added))
       \<and> hands_needed strat' = hands_needed strat + int (length (plays_of added))"
proof (induction target sim total_score strat arbitrary: total' strat' rule: strategy_loop.induct)
  case (1 target sim total_score strat)
  show ?case
  proof (cases "total_score < target \<and> hands_remaining sim > 0")
    case False
    then have "strategy_loop target sim total_score strat = (Inr (total_score, strat), sim)"
      by (subst strategy_loop.simps) auto
    with "1.prems" have "total' = total_score" "strat' = strat" by simp_all
    then show ?thesis by (intro exI [of _ "[]"]) (simp add: plays_of_def)
  next
    case continue: True
    show ?thesis
    proof (cases "find_best_play sim")
      case None
      then have "strategy_loop target sim total_score strat = (Inl AttributeError, sim)"
        using continue by (subst strategy_loop.simps) simp
      with "1.prems" show ?thesis by simp
    next
      case (Some best_play)
      have bp: "action_type best_play = PLAY"
        using Some by (rule find_best_play_PLAY)
      let ?discard = "discards_remaining sim > 0
                \<and> (of_int (estimate_discard_value sim) :: rat) > of_int (expected_score best_play) * (3 / 10)
                \<and> hands_remaining sim > 1"
      let ?play_sim = "sim\<lparr>hands_remaining := hands_remaining sim - 1,
                      hand := remove_cards (cards best_play) (hand sim)\<rparr>"
      let ?play_strat = "strat\<lparr>actions := actions strat @ [best_play],
                        hands_needed := hands_needed strat + 1\<rparr>"
      have play: ?thesis
        if eq: "strategy_loop target sim total_score strat =
                  strategy_loop target ?play_sim (total_score + expected_score best_play) ?play_strat"
          and ih: "\<And>total' strat'. fst (strategy_loop target ?play_sim (total_score + expected_score best_play) ?play_strat) = Inr (total', strat') \<Longrightarrow>
             \<exists>added. actions strat' = actions ?play_strat @ added
       \<and> total' = (total_score + expected_score best_play) + sum_list (map expected_score (plays_of added))
       \<and> hands_needed strat' = hands_needed ?play_strat + int (length (plays_of added))"
      proof -
        from "1.prems" eq
        have "fst (strategy_loop target ?play_sim (total_score + expected_score best_play) ?play_strat) = Inr (total', strat')"
          by simp
        from ih [OF this] obtain added where
          "actions strat' = actions ?play_strat @ added"
          "total' = (total_score + expected_score best_play) + sum_list (map expected_score (plays_of added))"
          "hands_needed strat' = hands_needed ?play_strat + int (length (plays_of added))"
          by blast
        then show ?thesis
          using bp by (intro exI [of _ "best_play # added"]) (simp add: plays_of_def)
      qed
      show ?thesis
      proof (cases ?discard)
        case False
        have "strategy_loop target sim total_score strat =
                  strategy_loop target ?play_sim (total_score + expected_score best_play) ?play_strat"
          using continue Some False by (subst strategy_loop.simps) auto
        then show ?thesis
          using "1.IH"(3) [OF continue Some] False by (intro play) auto
      next
        case disc: True
        show ?thesis
        proof (cases "find_best_discard sim")
          case (Inl e)
          then have "strategy_loop target sim total_score strat = (Inl e, sim)"
            using continue Some disc by (subst strategy_loop.simps) simp
          with "1.prems" show ?thesis by simp
        next
          case (Inr discard_action)
          have da: "action_type discard_action = DISCARD"
            using Inr by (rule find_best_discard_DISCARD)
          show ?thesis
          proof (cases "cards discard_action \<noteq> []")
            case False
            have "strategy_loop target sim total_score strat =
                  strategy_loop target ?play_sim (total_score + expected_score best_play) ?play_strat"
              using continue Some disc Inr False by (subst strategy_loop.simps) simp
            then show ?thesis
              using "1.IH"(2) [OF continue Some disc Inr] False by (intro play) auto
          next
            case True
            let ?d_sim = "sim\<lparr>discards_remaining := discards_remaining sim - 1,
                             hand := remove_cards (cards discard_action) (hand sim)\<rparr>"
            let ?d_strat = "strat\<lparr>actions := actions strat @ [discard_action],
                               discards_used := discards_used strat + 1,
                               strategy_notes := strategy_notes strat @ [DiscardToImprove]\<rparr>"
            have eq: "strategy_loop target sim total_score strat =
                  strategy_loop target ?d_sim total_score ?d_strat"
              using continue Some disc Inr True by (subst strategy_loop.simps) simp
            with "1.prems"
            have "fst (strategy_loop target ?d_sim total_score ?d_strat) = Inr (total', strat')"
              by simp
            from "1.IH"(1) [OF continue Some disc Inr True this] obtain added where
              "actions strat' = actions ?d_strat @ added"
              "total' = total_score + sum_list (map expected_score (plays_of added))"
              "hands_needed strat' = hands_needed ?d_strat + int (length (plays_of added))"
              by blast
            then show ?thesis
              using da by (intro exI [of _ "discard_action # added"]) (simp add: plays_of_def)
          qed
        qed
      qed
    qed
  qed
qed

lemma finish_strategy_probability:
  assumes "finish_strategy target caller_hands total_score strat = Inr s"
  shows "total_expected_score s = total_score \<and> hands_needed s = hands_needed strat
       \<and> actions s = actions strat
       \<and> success_probability s =
           (if total_score \<ge> target
            then (if hands_needed strat \<le> caller_hands then 19 / 20 else 0)
            else min (4 / 5) (of_int total_score / of_int target))"
  using assms
  by (auto simp: finish_strategy_def Let_def ebind_def py_div_def split: if_splits)

lemma calculate_strategy_result:
  assumes "self < length h"
    and "target_score (blind (h ! self)) - current_score (h ! self) > 0"
  shows "fst (calculate_strategy h self) =
     (case fst (strategy_loop (target_score (blind (h ! self))) (h ! self)
                  (current_score (h ! self)) Strategy) of
        Inl e \<Rightarrow> Inl e
      | Inr (total_score, strat) \<Rightarrow>
          finish_strategy (target_score (blind (h ! self))) (hands_remaining (h ! self))
            total_score strat)"
  using assms
  by (auto simp: calculate_strategy_def state_copy_def Let_def nth_append
      split: prod.splits sum.splits)


lemma strategy_loop_single_hand:
  assumes "hands_remaining sim = 1" and "total_score < target"
    and "find_best_play sim = Some a"
  shows "fst (strategy_loop target sim total_score strat) =
           Inr (total_score + expected_score a,
                strat\<lparr>actions := actions strat @ [a], hands_needed := hands_needed strat + 1\<rparr>)"
  using assms
  by (subst strategy_loop.simps, simp, subst strategy_loop.simps, simp)

lemma calculate_strategy_totals:
  assumes "self < length h"
    and "target_score (blind (h ! self)) - current_score (h ! self) > 0"
    and "fst (calculate_strategy h self) = Inr s"
  shows "total_expected_score s
           = current_score (h ! self) + sum_list (map expected_score (plays_of (actions s)))
         \<and> hands_needed s = int (length (plays_of (actions s)))"
proof -
  let ?st = "h ! self"
  let ?target = "target_score (blind ?st)"
  from assms(3) calculate_strategy_result [OF assms(1,2)] obtain total_score strat
    where loop: "fst (strategy_loop ?target ?st (current_score ?st) Strategy) = Inr (total_score, strat)"
      and fin: "finish_strategy ?target (hands_remaining ?st) total_score strat = Inr s"
    by (auto split: sum.splits)
  from strategy_loop_invariant [OF loop] obtain added where
    "actions strat = actions Strategy @ added"
    "total_score = current_score ?st + sum_list (map expected_score (plays_of added))"
    "hands_needed strat = hands_needed Strategy + int (length (plays_of added))"
    by blast
  then show ?thesis
    using finish_strategy_probability [OF fin] by (simp add: Strategy_def)
qed

lemma finish_strategy_returns:
  "target \<noteq> 0 \<Longrightarrow> \<not> isl (finish_strategy target caller_hands total_score strat)"
  by (simp add: finish_strategy_def Let_def isl_ebind py_div_def)

lemma calculate_strategy_returns:
  assumes "self < length h"
    and "target_score (blind (h ! self)) - current_score (h ! self) > 0"
    and "entity_free_state (h ! self)" and "target_score (blind (h ! self)) \<noteq> 0"
  shows "\<exists>s. fst (calculate_strategy h self) = Inr s"
proof -
  let ?st = "h ! self"
  let ?target = "target_score (blind ?st)"
  have "\<not> isl (fst (strategy_loop ?target ?st (current_score ?st) Strategy))"
    using assms(3) by (rule strategy_loop_returns)
  then obtain total_score strat
    where loop: "fst (strategy_loop ?target ?st (current_score ?st) Strategy) = Inr (total_score, strat)"
    by (cases "fst (strategy_loop ?target ?st (current_score ?st) Strategy)") auto
  have "\<not> isl (finish_strategy ?target (hands_remaining ?st) total_score strat)"
    using assms(4) by (rule finish_strategy_returns)
  then obtain s where "finish_strategy ?target (hands_remaining ?st) total_score strat = Inr s"
    by (cases "finish_strategy ?target (hands_remaining ?st) total_score strat") auto
  then show ?thesis
    by (simp add: calculate_strategy_result [OF assms(1,2)] loop)
qed

text \<open>
  For a state with a positive remaining target, every strategy that \<open>calculate_strategy\<close>
  returns has the success probability of the three cases, and it returns for the states
  without entities and for the two scenarios.
\<close>

lemma calculate_strategy_probability_of_result:
  assumes "self < length h"
    and "target_score (blind (h ! self)) - current_score (h ! self) > 0"
  shows "(\<forall>s. fst (calculate_strategy h self) = Inr s \<longrightarrow>
            success_probability s =
              (if total_expected_score s \<ge> target_score (blind (h ! self))
               then (if hands_needed s \<le> hands_remaining (h ! self) then 19 / 20 else 0)
               else min (4 / 5)
                      (of_int (total_expected_score s) / of_int (target_score (blind (h ! self)))))
            \<and> total_expected_score s
                = current_score (h ! self) + sum_list (map expected_score (plays_of (actions s)))
            \<and> hands_needed s = int (length (plays_of (actions s))))
    \<and> (entity_free_state (h ! self) \<and> target_score (blind (h ! self)) \<noteq> 0 \<longrightarrow>
         (\<exists>s. fst (calculate_strategy h self) = Inr s))
    \<and> (target_score (blind (h ! self)) = 800 \<and> current_score (h ! self) = 0
        \<and> hands_remaining (h ! self) = 1 \<longrightarrow>
         (\<forall>a. find_best_play (h ! self) = Some a \<and> expected_score a = 400 \<longrightarrow>
            (\<exists>s. fst (calculate_strategy h self) = Inr s \<and> success_probability s = 1 / 2))
         \<and> (\<forall>a. find_best_play (h ! self) = Some a \<and> expected_score a = 850 \<longrightarrow>
            (\<exists>s. fst (calculate_strategy h self) = Inr s \<and> success_probability s = 19 / 20
                 \<and> actions s = [a] \<and> action_type a = PLAY)))"
proof -
  let ?st = "h ! self"
  let ?target = "target_score (blind ?st)"
  have res: "fst (calculate_strategy h self) =
     (case fst (strategy_loop ?target ?st (current_score ?st) Strategy) of
        Inl e \<Rightarrow> Inl e
      | Inr (total_score, strat) \<Rightarrow>
          finish_strategy ?target (hands_remaining ?st) total_score strat)"
    using assms by (rule calculate_strategy_result)
  have general: "success_probability s =
              (if total_expected_score s \<ge> ?target
               then (if hands_needed s \<le> hands_remaining ?st then 19 / 20 else 0)
               else min (4 / 5) (of_int (total_expected_score s) / of_int ?target))"
    if "fst (calculate_strategy h self) = Inr s" for s
  proof -
    from that res obtain total_score strat
      where "finish_strategy ?target (hands_remaining ?st) total_score strat = Inr s"
      by (auto split: sum.splits)
    from finish_strategy_probability [OF this] show ?thesis by simp
  qed
  have totals: "total_expected_score s
           = current_score ?st + sum_list (map expected_score (plays_of (actions s)))
         \<and> hands_needed s = int (length (plays_of (actions s)))"
    if "fst (calculate_strategy h self) = Inr s" for s
    using assms that by (rule calculate_strategy_totals)
  have scenario: "\<exists>s. fst (calculate_strategy h self) = Inr s
        \<and> success_probability s = (if expected_score a \<ge> 800 then 19 / 20
                                    else min (4 / 5) (of_int (expected_score a) / 800))
        \<and> actions s = [a] \<and> action_type a = PLAY"
    if t: "?target = 800" and c: "current_score ?st = 0" and hr: "hands_remaining ?st = 1"
      and bp: "find_best_play ?st = Some a" for a
  proof -
    have loop: "fst (strategy_loop ?target ?st (current_score ?st) Strategy) =
        Inr (expected_score a, Strategy\<lparr>actions := [a], hands_needed := 1\<rparr>)"
      using strategy_loop_single_hand [OF hr _ bp, of "current_score ?st" ?target Strategy] t c
      by (simp add: Strategy_def)
    have r2: "fst (calculate_strategy h self) =
        finish_strategy 800 1 (expected_score a) (Strategy\<lparr>actions := [a], hands_needed := 1\<rparr>)"
      unfolding res loop by (simp add: t hr)
    show ?thesis
      unfolding r2 using find_best_play_PLAY [OF bp]
      by (simp add: finish_strategy_def Let_def ebind_def py_div_def Strategy_def)
  qed
  have part1: "\<forall>s. fst (calculate_strategy h self) = Inr s \<longrightarrow>
            success_probability s =
              (if total_expected_score s \<ge> ?target
               then (if hands_needed s \<le> hands_remaining ?st then 19 / 20 else 0)
               else min (4 / 5) (of_int (total_expected_score s) / of_int ?target))
            \<and> total_expected_score s
                = current_score ?st + sum_list (map expected_score (plays_of (actions s)))
            \<and> hands_needed s = int (length (plays_of (actions s)))"
    using general totals by blast
  have part2: "?target = 800 \<and> current_score ?st = 0 \<and> hands_remaining ?st = 1 \<longrightarrow>
         (\<forall>a. find_best_play ?st = Some a \<and> expected_score a = 400 \<longrightarrow>
            (\<exists>s. fst (calculate_strategy h self) = Inr s \<and> success_probability s = 1 / 2))
         \<and> (\<forall>a. find_best_play ?st = Some a \<and> expected_score a = 850 \<longrightarrow>
            (\<exists>s. fst (calculate_strategy h self) = Inr s \<and> success_probability s = 19 / 20
                 \<and> actions s = [a] \<and> action_type a = PLAY))"
    using scenario by (auto simp: min_def)
  have returns: "entity_free_state ?st \<and> ?target \<noteq> 0 \<longrightarrow>
         (\<exists>s. fst (calculate_strategy h self) = Inr s)"
    using assms by (auto intro: calculate_strategy_returns)
  show ?thesis
    using part1 returns part2 by (intro conjI)
qed

text \<open>
  Claim C3. The claim says that \<open>calculate_strategy\<close> returns a success probability for
  every state with a positive remaining target. With one catalogue entity held, four hearts
  and a spade in hand, four hands and three discards left and a target of 300, the loop
  chooses to discard, the discard analysis estimates the flush draw, and the estimator's
  read of \<^verbatim>\<open>joker.trigger_type\<close> raises AttributeError: the call returns no strategy. Without the
  entity the same call returns a strategy.
\<close>

theorem calculate_strategy_raises_with_joker:
  "target_score (blind flush_draw_state) - current_score flush_draw_state > 0
   \<and> fst (calculate_strategy [flush_draw_state] 0) = Inl AttributeError
   \<and> \<not> isl (fst (calculate_strategy [flush_draw_state\<lparr>jokers := []\<rparr>] 0))"
  by code_simp


end
